theory Spec2Isabelle
  imports Complex_Main
begin

section \<open>JavaScript preliminaries\<close>

text \<open>
  Finite JavaScript numbers are modelled by the reals (rounding and overflow are outside
  the model).  Where the source can produce an infinity or NaN from finite inputs, either
  the value is modelled by a constructor of \<open>jsnum\<close> or the case is excluded by an
  explicit hypothesis.  Exceptions are values: a computation that can throw has a result
  of type \<open>error + 'a\<close>, and \<open>try { ... } catch (e) { ... }\<close> is \<open>try_catch\<close>.
\<close>

datatype error = Error string | TypeError

definition try_catch :: "error + 'a \<Rightarrow> (error \<Rightarrow> error + 'a) \<Rightarrow> error + 'a" where
  "try_catch body handler = (case body of Inl e \<Rightarrow> handler e | Inr v \<Rightarrow> Inr v)"

text \<open>\<open>Number.prototype.toString\<close> on a non-negative integer: its decimal digits.\<close>

definition digit_char :: "nat \<Rightarrow> char" where
  "digit_char d = ''0123456789'' ! d"

fun toString_nat :: "nat \<Rightarrow> string" where
  "toString_nat n =
     (if n < 10 then [digit_char n] else toString_nat (n div 10) @ [digit_char (n mod 10)])"

declare toString_nat.simps [simp del]

text \<open>
  A number that may be one of the special values, with the arithmetic of the source on
  them.  \<open>undefined\<close> as an operand of arithmetic behaves as NaN.  The reals have one
  zero; it stands for the positive zero, which is the only zero that occurs as a divisor
  in the source (a length, a count, or a sum of non-negative terms).
\<close>

datatype jsnum = Num real | PosInfinity | NegInfinity | NaN

fun js_neg :: "jsnum \<Rightarrow> jsnum" where
  "js_neg (Num a) = Num (- a)"
| "js_neg PosInfinity = NegInfinity"
| "js_neg NegInfinity = PosInfinity"
| "js_neg NaN = NaN"

fun js_mul :: "jsnum \<Rightarrow> jsnum \<Rightarrow> jsnum" where
  "js_mul (Num a) (Num b) = Num (a * b)"
| "js_mul NaN _ = NaN"
| "js_mul _ NaN = NaN"
| "js_mul (Num a) PosInfinity =
     (if a = 0 then NaN else if 0 < a then PosInfinity else NegInfinity)"
| "js_mul (Num a) NegInfinity =
     (if a = 0 then NaN else if 0 < a then NegInfinity else PosInfinity)"
| "js_mul PosInfinity (Num b) =
     (if b = 0 then NaN else if 0 < b then PosInfinity else NegInfinity)"
| "js_mul NegInfinity (Num b) =
     (if b = 0 then NaN else if 0 < b then NegInfinity else PosInfinity)"
| "js_mul PosInfinity PosInfinity = PosInfinity"
| "js_mul NegInfinity NegInfinity = PosInfinity"
| "js_mul PosInfinity NegInfinity = NegInfinity"
| "js_mul NegInfinity PosInfinity = NegInfinity"

fun js_add :: "jsnum \<Rightarrow> jsnum \<Rightarrow> jsnum" where
  "js_add (Num a) (Num b) = Num (a + b)"
| "js_add NaN _ = NaN"
| "js_add _ NaN = NaN"
| "js_add PosInfinity NegInfinity = NaN"
| "js_add NegInfinity PosInfinity = NaN"
| "js_add PosInfinity _ = PosInfinity"
| "js_add NegInfinity _ = NegInfinity"
| "js_add (Num a) PosInfinity = PosInfinity"
| "js_add (Num a) NegInfinity = NegInfinity"

definition js_sub :: "jsnum \<Rightarrow> jsnum \<Rightarrow> jsnum" where
  "js_sub a b = js_add a (js_neg b)"

fun js_div :: "jsnum \<Rightarrow> jsnum \<Rightarrow> jsnum" where
  "js_div (Num a) (Num b) =
     (if b \<noteq> 0 then Num (a / b)
      else if a = 0 then NaN else if 0 < a then PosInfinity else NegInfinity)"
| "js_div NaN _ = NaN"
| "js_div _ NaN = NaN"
| "js_div (Num a) PosInfinity = Num 0"
| "js_div (Num a) NegInfinity = Num 0"
| "js_div PosInfinity (Num b) = (if 0 \<le> b then PosInfinity else NegInfinity)"
| "js_div NegInfinity (Num b) = (if 0 \<le> b then NegInfinity else PosInfinity)"
| "js_div PosInfinity _ = NaN"
| "js_div NegInfinity _ = NaN"

text \<open>\<open>Math.log\<close> on a finite number, and \<open>Math.pow(2, x)\<close>.\<close>

definition Math_log :: "real \<Rightarrow> jsnum" where
  "Math_log x = (if 0 < x then Num (ln x) else if x = 0 then NegInfinity else NaN)"

fun Math_pow2 :: "jsnum \<Rightarrow> jsnum" where
  "Math_pow2 (Num x) = Num (2 powr x)"
| "Math_pow2 PosInfinity = PosInfinity"
| "Math_pow2 NegInfinity = Num 0"
| "Math_pow2 NaN = NaN"

text \<open>
  An argument that the source accepts either as an array of numbers or as a single
  number (\<open>Array.isArray(data) ? data : [data]\<close>).
\<close>

datatype data_arg = ArrayArg "real list" | NumberArg real

definition as_array :: "data_arg \<Rightarrow> real list" where
  "as_array data = (case data of ArrayArg xs \<Rightarrow> xs | NumberArg x \<Rightarrow> [x])"

text \<open>
  \<open>v || d\<close> on a field that holds a number or is missing: a missing field, \<open>0\<close> and NaN
  are falsy.
\<close>

definition or_default :: "real option \<Rightarrow> real \<Rightarrow> real" where
  "or_default v d = (case v of None \<Rightarrow> d | Some x \<Rightarrow> if x = 0 then d else x)"

text \<open>\<open>Math.min(...values)\<close> and \<open>Math.max(...values)\<close> on a non-empty array, given as its
  first element and the rest.\<close>

fun Math_min :: "real \<Rightarrow> real list \<Rightarrow> real" where
  "Math_min x [] = x"
| "Math_min x (y # ys) = Math_min (min x y) ys"

fun Math_max :: "real \<Rightarrow> real list \<Rightarrow> real" where
  "Math_max x [] = x"
| "Math_max x (y # ys) = Math_max (max x y) ys"

section \<open>AlertService\<close>

subsection \<open>Data\<close>

record tier =
  warning :: real
  critical :: real

record thresholds =
  thr_cpu :: tier
  thr_memory :: tier
  thr_disk :: tier
  thr_anomalyScore :: tier

text \<open>The \<open>details\<close> sub-document of an alert; each rule fills two of its fields.\<close>

datatype details =
  ThresholdDetails (currentValue: real) (threshold: real)
| AnomalyDetails (anomalyScore: real) (threshold: real)
| PredictionDetails (prediction: real) (currentValue: real)

text \<open>The object literal handed to \<open>createAlert\<close>.\<close>

record alertData =
  alert_type :: string
  source :: string
  processId :: "string option"
  processName :: "string option"
  metric :: string
  message :: string
  details :: details
  mlDetected :: bool
  algorithm :: "string option"

text \<open>The document built by \<open>new Alert({alertId, severity, ...alertData})\<close>.\<close>

record alert = alertData +
  alertId :: string
  severity :: nat

record alert_service =
  activeAlerts :: "string \<rightharpoonup> alert"
  thresholds :: thresholds
  alertCooldown :: "string \<rightharpoonup> int"
  cooldownPeriod :: int

text \<open>The state the constructor builds.\<close>

definition new_AlertService :: alert_service where
  "new_AlertService =
     \<lparr> activeAlerts = Map.empty,
       thresholds =
         \<lparr> thr_cpu = \<lparr> warning = 70, critical = 85 \<rparr>,
           thr_memory = \<lparr> warning = 75, critical = 90 \<rparr>,
           thr_disk = \<lparr> warning = 80, critical = 95 \<rparr>,
           thr_anomalyScore = \<lparr> warning = 0.6, critical = 0.8 \<rparr> \<rparr>,
       alertCooldown = Map.empty,
       cooldownPeriod = 60000 \<rparr>"

text \<open>
  What the outside world contributes to one guarded block
  \<open>if (!isInCooldown(key)) { alerts.push(await createAlert(...)); setCooldown(key) }\<close>:
  the clock read by \<open>isInCooldown\<close>, the identifier
  \<open>`${Date.now()}-${Math.random().toString(36).substr(2, 9)}`\<close> drawn by \<open>createAlert\<close>,
  whether \<open>new Alert(...)\<close> and \<open>alert.save()\<close> succeeded (the storage layer is not
  modelled further), and the clock read by \<open>setCooldown\<close> after the \<open>await\<close>.  The
  clock is in milliseconds since the epoch.
\<close>

record rule_env =
  check_now :: int
  fresh_id :: string
  save_ok :: bool
  set_now :: int

text \<open>The fields of \<open>stats\<close>, \<open>process\<close> and \<open>mlAnalysis\<close> that the checks read.\<close>

record stats =
  cpu_usage :: real
  memory_usage :: real

record process_info =
  pid :: nat
  name :: string
  cpu :: real

record anomaly =
  isAnomaly :: bool
  anomaly_severity :: string
  score :: real

record mlAnalysis =
  anomaly :: "anomaly option"
  predictions :: "real list option"

subsection \<open>Operations\<close>

text \<open>
  \<open>isInCooldown\<close>: \<open>!lastAlert\<close> holds for a missing entry and also for the stored
  timestamp \<open>0\<close>.
\<close>

definition isInCooldown :: "alert_service \<Rightarrow> int \<Rightarrow> string \<Rightarrow> bool" where
  "isInCooldown s now key =
     (case alertCooldown s key of
        None \<Rightarrow> False
      | Some lastAlert \<Rightarrow> if lastAlert = 0 then False else now - lastAlert < cooldownPeriod s)"

definition setCooldown :: "alert_service \<Rightarrow> int \<Rightarrow> string \<Rightarrow> alert_service" where
  "setCooldown s now key = s\<lparr> alertCooldown := (alertCooldown s)(key \<mapsto> now) \<rparr>"

definition calculateSeverity :: "string \<Rightarrow> nat" where
  "calculateSeverity ty =
     (if ty = ''critical'' then 9
      else if ty = ''warning'' then 6
      else if ty = ''info'' then 3
      else 5)"

text \<open>
  \<open>createAlert\<close>: a failing \<open>save\<close> is caught, nothing is indexed and \<open>null\<close> (here
  \<open>None\<close>) is returned.
\<close>

definition createAlert ::
  "alert_service \<Rightarrow> rule_env \<Rightarrow> alertData \<Rightarrow> alert option \<times> alert_service" where
  "createAlert s e alertData =
     (if save_ok e then
        (let alert =
               \<lparr> alert_type = alert_type alertData, source = source alertData,
                 processId = processId alertData, processName = processName alertData,
                 metric = metric alertData, message = message alertData,
                 details = details alertData, mlDetected = mlDetected alertData,
                 algorithm = algorithm alertData,
                 alertId = fresh_id e,
                 severity = calculateSeverity (alert_type alertData) \<rparr>
         in (Some alert, s\<lparr> activeAlerts := (activeAlerts s)(alertId alert \<mapsto> alert) \<rparr>))
      else (None, s))"

text \<open>The guarded block that every rule of the two checks repeats.\<close>

definition guarded_alert ::
  "alert_service \<Rightarrow> rule_env \<Rightarrow> string \<Rightarrow> alertData \<Rightarrow> alert option list
     \<Rightarrow> alert option list \<times> alert_service" where
  "guarded_alert s e key alertData alerts =
     (if \<not> isInCooldown s (check_now e) key then
        (let (a, s1) = createAlert s e alertData
         in (alerts @ [a], setCooldown s1 (set_now e) key))
      else (alerts, s))"

text \<open>
  \<open>checkSystemThresholds\<close> runs two blocks in sequence, the CPU check and the memory
  check; each is given here under its own name, in source order.  \<open>toFixed\<close> is
  \<open>Number.prototype.toFixed\<close>; \<open>e\<close> is the environment of the block.
\<close>

definition system_cpu_check ::
  "(real \<Rightarrow> nat \<Rightarrow> string) \<Rightarrow> alert_service \<Rightarrow> stats \<Rightarrow> rule_env \<Rightarrow> alert option list
     \<Rightarrow> alert option list \<times> alert_service" where
  "system_cpu_check toFixed s stats e alerts =
     (if cpu_usage stats > critical (thr_cpu (thresholds s)) then
        guarded_alert s e ''system-cpu-critical''
          \<lparr> alert_type = ''critical'', source = ''threshold'',
            processId = None, processName = None, metric = ''cpu'',
            message = ''System CPU usage critical at '' @ toFixed (cpu_usage stats) 1 @ ''%'',
            details = ThresholdDetails (cpu_usage stats) (critical (thr_cpu (thresholds s))),
            mlDetected = False, algorithm = None \<rparr> alerts
      else if cpu_usage stats > warning (thr_cpu (thresholds s)) then
        guarded_alert s e ''system-cpu-warning''
          \<lparr> alert_type = ''warning'', source = ''threshold'',
            processId = None, processName = None, metric = ''cpu'',
            message = ''System CPU usage elevated at '' @ toFixed (cpu_usage stats) 1 @ ''%'',
            details = ThresholdDetails (cpu_usage stats) (warning (thr_cpu (thresholds s))),
            mlDetected = False, algorithm = None \<rparr> alerts
      else (alerts, s))"

definition system_memory_check ::
  "(real \<Rightarrow> nat \<Rightarrow> string) \<Rightarrow> alert_service \<Rightarrow> stats \<Rightarrow> rule_env \<Rightarrow> alert option list
     \<Rightarrow> alert option list \<times> alert_service" where
  "system_memory_check toFixed s stats e alerts =
     (if memory_usage stats > critical (thr_memory (thresholds s)) then
        guarded_alert s e ''system-memory-critical''
          \<lparr> alert_type = ''critical'', source = ''threshold'',
            processId = None, processName = None, metric = ''memory'',
            message = ''System memory usage critical at '' @ toFixed (memory_usage stats) 1 @ ''%'',
            details = ThresholdDetails (memory_usage stats)
                        (critical (thr_memory (thresholds s))),
            mlDetected = False, algorithm = None \<rparr> alerts
      else (alerts, s))"

definition checkSystemThresholds ::
  "(real \<Rightarrow> nat \<Rightarrow> string) \<Rightarrow> alert_service \<Rightarrow> stats \<Rightarrow> rule_env \<Rightarrow> rule_env
     \<Rightarrow> alert option list \<times> alert_service" where
  "checkSystemThresholds toFixed s stats e_cpu e_mem =
     (let alerts = [];
          (alerts, s) = system_cpu_check toFixed s stats e_cpu alerts;
          (alerts, s) = system_memory_check toFixed s stats e_mem alerts
      in (alerts, s))"

text \<open>
  \<open>checkProcessThresholds\<close> runs three blocks in sequence: high CPU usage, ML-detected
  anomaly, prediction-based alert.  \<open>mlAnalysis\<close> may be \<open>null\<close>, and so may its fields
  \<open>anomaly\<close> and \<open>predictions\<close>.  The mean of an empty \<open>predictions\<close> array is
  \<open>0 / 0\<close>, which is NaN and not greater than 85.
\<close>

definition process_cpu_check ::
  "(real \<Rightarrow> nat \<Rightarrow> string) \<Rightarrow> alert_service \<Rightarrow> process_info \<Rightarrow> rule_env
     \<Rightarrow> alert option list \<Rightarrow> alert option list \<times> alert_service" where
  "process_cpu_check toFixed s process e alerts =
     (if cpu process > 90 then
        guarded_alert s e (''process-'' @ toString_nat (pid process) @ ''-cpu'')
          \<lparr> alert_type = ''warning'', source = ''threshold'',
            processId = Some (toString_nat (pid process)),
            processName = Some (name process), metric = ''cpu'',
            message = ''Process '' @ name process @ '' using '' @ toFixed (cpu process) 1
                        @ ''% CPU'',
            details = ThresholdDetails (cpu process) 90,
            mlDetected = False, algorithm = None \<rparr> alerts
      else (alerts, s))"

definition process_anomaly_check ::
  "(real \<Rightarrow> nat \<Rightarrow> string) \<Rightarrow> alert_service \<Rightarrow> process_info \<Rightarrow> mlAnalysis option
     \<Rightarrow> rule_env \<Rightarrow> alert option list \<Rightarrow> alert option list \<times> alert_service" where
  "process_anomaly_check toFixed s process ml e alerts =
     (case ml of
        Some m \<Rightarrow>
          (case anomaly m of
             Some an \<Rightarrow>
               if isAnomaly an then
                 guarded_alert s e (''process-'' @ toString_nat (pid process) @ ''-anomaly'')
                   \<lparr> alert_type = (if anomaly_severity an = ''critical''
                                   then ''critical'' else ''warning''),
                     source = ''anomaly'',
                     processId = Some (toString_nat (pid process)),
                     processName = Some (name process), metric = ''anomaly'',
                     message = ''Anomaly detected in '' @ name process @ '' (score: ''
                                 @ toFixed (score an) 2 @ '')'',
                     details = AnomalyDetails (score an)
                                 (warning (thr_anomalyScore (thresholds s))),
                     mlDetected = True, algorithm = Some ''Isolation Forest'' \<rparr> alerts
               else (alerts, s)
           | None \<Rightarrow> (alerts, s))
      | None \<Rightarrow> (alerts, s))"

definition process_prediction_check ::
  "(real \<Rightarrow> nat \<Rightarrow> string) \<Rightarrow> alert_service \<Rightarrow> process_info \<Rightarrow> mlAnalysis option
     \<Rightarrow> rule_env \<Rightarrow> alert option list \<Rightarrow> alert option list \<times> alert_service" where
  "process_prediction_check toFixed s process ml e alerts =
     (case ml of
        Some m \<Rightarrow>
          (case predictions m of
             Some ps \<Rightarrow>
               (let avgPrediction = foldl (+) 0 ps / real (length ps)
                in if ps \<noteq> [] \<and> avgPrediction > 85 then
                     guarded_alert s e
                       (''process-'' @ toString_nat (pid process) @ ''-prediction'')
                       \<lparr> alert_type = ''warning'', source = ''prediction'',
                         processId = Some (toString_nat (pid process)),
                         processName = Some (name process), metric = ''cpu'',
                         message = ''LSTM predicts '' @ name process @ '' will reach ''
                                     @ toFixed avgPrediction 1 @ ''% CPU'',
                         details = PredictionDetails avgPrediction (cpu process),
                         mlDetected = True,
                         algorithm = Some ''LSTM Neural Network'' \<rparr> alerts
                   else (alerts, s))
           | None \<Rightarrow> (alerts, s))
      | None \<Rightarrow> (alerts, s))"

definition checkProcessThresholds ::
  "(real \<Rightarrow> nat \<Rightarrow> string) \<Rightarrow> alert_service \<Rightarrow> process_info \<Rightarrow> mlAnalysis option
     \<Rightarrow> rule_env \<Rightarrow> rule_env \<Rightarrow> rule_env \<Rightarrow> alert option list \<times> alert_service" where
  "checkProcessThresholds toFixed s process ml e_cpu e_anom e_pred =
     (let alerts = [];
          (alerts, s) = process_cpu_check toFixed s process e_cpu alerts;
          (alerts, s) = process_anomaly_check toFixed s process ml e_anom alerts;
          (alerts, s) = process_prediction_check toFixed s process ml e_pred alerts
      in (alerts, s))"

text \<open>
  The deduplication key under which the checks file an alert, read back from the fields
  the rule wrote into it: system rules use \<open>system-<metric>-<type>\<close>, process rules
  \<open>process-<pid>-<rule>\<close> where the rule is the metric for a threshold alert and the
  source otherwise.
\<close>

definition alertKey :: "alert \<Rightarrow> string" where
  "alertKey a =
     (case processId a of
        None \<Rightarrow> ''system-'' @ metric a @ ''-'' @ alert_type a
      | Some p \<Rightarrow> ''process-'' @ p @ ''-'' @ (if source a = ''threshold'' then metric a else source a))"

text \<open>The alerts of key \<open>k\<close> among the entries a check returned (\<open>null\<close> entries are none).\<close>

definition alerts_for :: "string \<Rightarrow> alert option list \<Rightarrow> alert list" where
  "alerts_for k out = filter (\<lambda>a. alertKey a = k) (List.map_filter id out)"





section \<open>DataPreprocessor\<close>

text \<open>
  The entry that \<open>normalize\<close> stores is \<open>{min, max, range}\<close>, the one that
  \<open>standardize\<close> stores is \<open>{mean, std}\<close>.  On an empty array \<open>Math.min()\<close> is
  \<open>Infinity\<close> and \<open>Math.max()\<close> is \<open>-Infinity\<close>, and the mean is \<open>0 / 0\<close>.
\<close>

datatype scaler =
  MinMaxScaler (scaler_min: jsnum) (scaler_max: jsnum) (scaler_range: jsnum)
| ZScoreScaler (scaler_mean: jsnum) (scaler_std: jsnum)

record DataPreprocessor =
  scalers :: "string \<rightharpoonup> scaler"

definition new_DataPreprocessor :: DataPreprocessor where
  "new_DataPreprocessor = \<lparr> scalers = Map.empty \<rparr>"

text \<open>
  \<open>normalize\<close> (here \<open>normalize_values\<close>) returns the scaled values and the preprocessor with the scaler recorded.
  \<open>rng\<close> is the source's \<open>range\<close>; \<open>max - min || 1\<close> replaces a zero range by \<open>1\<close>.
\<close>

definition normalize_values ::
  "DataPreprocessor \<Rightarrow> data_arg \<Rightarrow> string \<Rightarrow> real list \<times> DataPreprocessor" where
  "normalize_values p data featureName =
     (case as_array data of
        [] \<Rightarrow>
          ([], p\<lparr> scalers := (scalers p)(featureName \<mapsto>
                      MinMaxScaler PosInfinity NegInfinity NegInfinity) \<rparr>)
      | v # vs \<Rightarrow>
          (let values = v # vs;
               mn = Math_min v vs;
               mx = Math_max v vs;
               rng = (if mx - mn = 0 then 1 else mx - mn)
           in (map (\<lambda>val. (val - mn) / rng) values,
               p\<lparr> scalers := (scalers p)(featureName \<mapsto>
                      MinMaxScaler (Num mn) (Num mx) (Num rng)) \<rparr>)))"

text \<open>
  \<open>denormalize\<close> throws \<open>new Error(`No scaler found for feature: ${featureName}`)\<close>
  when no scaler is recorded.  An entry stored by \<open>standardize\<close> has neither \<open>range\<close>
  nor \<open>min\<close>, so every value comes out as NaN.
\<close>

definition denormalize ::
  "DataPreprocessor \<Rightarrow> data_arg \<Rightarrow> string \<Rightarrow> error + jsnum list" where
  "denormalize p normalizedData featureName =
     (case scalers p featureName of
        None \<Rightarrow> Inl (Error (''No scaler found for feature: '' @ featureName))
      | Some scaler \<Rightarrow>
          (let values = as_array normalizedData
           in Inr (map (\<lambda>val. case scaler of
                                 MinMaxScaler mn mx rng \<Rightarrow> js_add (js_mul (Num val) rng) mn
                               | ZScoreScaler mean std \<Rightarrow> NaN) values)))"

text \<open>\<open>standardize\<close>: \<open>Math.sqrt(variance) || 1\<close> replaces a zero deviation by \<open>1\<close>.\<close>

definition standardize ::
  "DataPreprocessor \<Rightarrow> data_arg \<Rightarrow> string \<Rightarrow> real list \<times> DataPreprocessor" where
  "standardize p data featureName =
     (case as_array data of
        [] \<Rightarrow> ([], p\<lparr> scalers := (scalers p)(featureName \<mapsto> ZScoreScaler NaN (Num 1)) \<rparr>)
      | v # vs \<Rightarrow>
          (let values = v # vs;
               mean = foldl (\<lambda>sum val. sum + val) 0 values / real (length values);
               variance = foldl (\<lambda>sum val. sum + (val - mean)\<^sup>2) 0 values / real (length values);
               std = (if sqrt variance = 0 then 1 else sqrt variance)
           in (map (\<lambda>val. (val - mean) / std) values,
               p\<lparr> scalers := (scalers p)(featureName \<mapsto> ZScoreScaler (Num mean) (Num std)) \<rparr>)))"

text \<open>
  A history of scaling calls on one preprocessor, and the feature names they recorded
  scalers for.
\<close>

datatype scaling_call = Normalize data_arg string | Standardize data_arg string

fun scaling_step :: "DataPreprocessor \<Rightarrow> scaling_call \<Rightarrow> DataPreprocessor" where
  "scaling_step p (Normalize data featureName) = snd (normalize_values p data featureName)"
| "scaling_step p (Standardize data featureName) = snd (standardize p data featureName)"

fun scaled_feature :: "scaling_call \<Rightarrow> string" where
  "scaled_feature (Normalize data featureName) = featureName"
| "scaled_feature (Standardize data featureName) = featureName"

section \<open>IsolationForest\<close>

text \<open>
  A node is \<open>{type: 'leaf', size}\<close> or
  \<open>{type: 'internal', featureIndex, splitValue, left, right}\<close>.
\<close>

datatype tree =
  Leaf nat
| Internal nat real tree tree

text \<open>
  \<open>numTrees\<close>, \<open>sampleSize\<close> and \<open>contamination\<close> are the numbers the constructor was
  given; it does not check them, so they need not be positive or whole.
\<close>

record IsolationForest =
  numTrees :: real
  sampleSize :: real
  contamination :: real
  trees :: "tree list"
  trained :: bool

text \<open>The constructor; its defaults are \<open>(100, 256, 0.1)\<close>.\<close>

definition new_IsolationForest :: "real \<Rightarrow> real \<Rightarrow> real \<Rightarrow> IsolationForest" where
  "new_IsolationForest n m c =
     \<lparr> numTrees = n, sampleSize = m, contamination = c, trees = [], trained = False \<rparr>"

text \<open>
  The correction term \<open>2 * (Math.log(n - 1) + 0.5772156649) - (2 * (n - 1) / n)\<close> is
  written twice in the source.  In \<open>pathLength\<close> it is guarded by \<open>tree.size > 1\<close>,
  so that the logarithm has an argument of at least 1 and the term is a finite number,
  \<open>c_factor\<close>.  In \<open>predict\<close> it is computed on \<open>sampleSize\<close> without a guard,
  \<open>c_sample\<close>: for sample size 1 the logarithm is \<open>-Infinity\<close>, for a sample size below
  1 it is NaN.
\<close>

definition c_factor :: "nat \<Rightarrow> real" where
  "c_factor n = 2 * (ln (real n - 1) + 0.5772156649) - (2 * (real n - 1) / real n)"

definition c_sample :: "real \<Rightarrow> jsnum" where
  "c_sample n =
     js_sub (js_mul (Num 2) (js_add (Math_log (n - 1)) (Num 0.5772156649)))
            (js_div (Num (2 * (n - 1))) (Num n))"

text \<open>
  \<open>pathLength\<close>.  The point is an array of numbers, or (\<open>None\<close>) a value such as
  \<open>null\<close> or \<open>undefined\<close> on which \<open>point[tree.featureIndex]\<close> throws a TypeError.  An
  index beyond the array gives \<open>undefined\<close>, and \<open>undefined < splitValue\<close> is false.
\<close>

fun pathLength :: "real list option \<Rightarrow> tree \<Rightarrow> nat \<Rightarrow> error + real" where
  "pathLength point (Leaf tree_size) currentDepth =
     (let c = (if tree_size > 1 then c_factor tree_size else 0)
      in Inr (real currentDepth + c))"
| "pathLength point (Internal featureIndex splitValue left right) currentDepth =
     (case point of
        None \<Rightarrow> Inl TypeError
      | Some xs \<Rightarrow>
          if featureIndex < length xs \<and> xs ! featureIndex < splitValue
          then pathLength point left (currentDepth + 1)
          else pathLength point right (currentDepth + 1))"

text \<open>
  The \<open>reduce\<close> of \<open>predict\<close>: the sum of the path lengths over the trees, from left to
  right; the first throw ends it.
\<close>

fun sum_pathLengths :: "real list option \<Rightarrow> real \<Rightarrow> tree list \<Rightarrow> error + real" where
  "sum_pathLengths point acc [] = Inr acc"
| "sum_pathLengths point acc (tree # ts) =
     (case pathLength point tree 0 of
        Inl e \<Rightarrow> Inl e
      | Inr len \<Rightarrow> sum_pathLengths point (acc + len) ts)"

text \<open>
  \<open>IsolationForest.predict\<close>.  \<open>this.trees\<close> is always an array.  The path lengths
  and their sum are finite numbers; the division by \<open>numTrees\<close>, the division by \<open>c\<close>
  and the power are those of the source, special values included.
\<close>

definition IsolationForest_predict :: "IsolationForest \<Rightarrow> real list option \<Rightarrow> error + jsnum" where
  "IsolationForest_predict f point =
     (if \<not> trained f \<or> trees f = [] then Inr (Num 0)
      else
        try_catch
          (case sum_pathLengths point 0 (trees f) of
             Inl e \<Rightarrow> Inl e
           | Inr pathSum \<Rightarrow>
               (let avgPathLength = js_div (Num pathSum) (Num (numTrees f));
                    c = c_sample (sampleSize f);
                    anomalyScore = Math_pow2 (js_div (js_neg avgPathLength) c)
                in Inr anomalyScore))
          (\<lambda>e. Inr (Num 0)))"

subsection \<open>Training\<close>

text \<open>
  The source draws from \<open>Math.random()\<close>.  The draws are given by a sequence \<open>rnd\<close>,
  and every function that draws takes the number of draws made so far and returns the
  number after it.  \<open>Math.random()\<close> returns a number \<open>r\<close> with \<open>0 \<le> r < 1\<close>; an entry
  of \<open>rnd\<close> outside this range is read as \<open>0\<close>.
\<close>

definition Math_random :: "(nat \<Rightarrow> real) \<Rightarrow> nat \<Rightarrow> real" where
  "Math_random rnd i = (if 0 \<le> rnd i \<and> rnd i < 1 then rnd i else 0)"

text \<open>A sequence of draws that are all the same number, for the examples.\<close>

definition constant_draws :: "real \<Rightarrow> nat \<Rightarrow> real" where
  "constant_draws r i = r"

text \<open>\<open>Math.floor(Math.random() * n)\<close>, a natural number as the product is not negative.\<close>

definition random_index :: "(nat \<Rightarrow> real) \<Rightarrow> nat \<Rightarrow> nat \<Rightarrow> nat" where
  "random_index rnd i n = nat \<lfloor>Math_random rnd i * real n\<rfloor>"

text \<open>\<open>point[featureIndex]\<close>: \<open>undefined\<close> (\<open>None\<close>) beyond the end of the point.\<close>

definition feature_at :: "real list \<Rightarrow> nat \<Rightarrow> real option" where
  "feature_at point featureIndex =
     (if featureIndex < length point then Some (point ! featureIndex) else None)"

text \<open>
  All elements of a list of optional numbers, when none is missing.  It is used for the
  arguments of \<open>Math.min\<close> and \<open>Math.max\<close>, whose result is NaN when an argument is
  \<open>undefined\<close>.
\<close>

fun all_defined :: "real option list \<Rightarrow> real list option" where
  "all_defined [] = Some []"
| "all_defined (None # xs) = None"
| "all_defined (Some x # xs) = (case all_defined xs of None \<Rightarrow> None | Some ys \<Rightarrow> Some (x # ys))"

text \<open>
  \<open>maxDepth\<close> is \<open>Math.ceil(Math.log2(sampleSize))\<close>: a whole number for a positive
  sample size, \<open>-Infinity\<close> for sample size 0 and NaN for a negative one.
  \<open>currentDepth >= maxDepth\<close> is \<open>depth_reached\<close>; a comparison with NaN is false.
\<close>

definition maxDepth_of :: "real \<Rightarrow> jsnum" where
  "maxDepth_of n =
     (if 0 < n then Num (of_int \<lceil>log 2 n\<rceil>) else if n = 0 then NegInfinity else NaN)"

definition depth_reached :: "nat \<Rightarrow> jsnum \<Rightarrow> bool" where
  "depth_reached currentDepth maxDepth =
     (case maxDepth of
        Num m \<Rightarrow> real currentDepth \<ge> m
      | PosInfinity \<Rightarrow> False
      | NegInfinity \<Rightarrow> True
      | NaN \<Rightarrow> False)"

text \<open>
  The number of rounds of a loop \<open>for (let i = 0; i < bound; i++)\<close>: the whole numbers
  from \<open>0\<close> that are below \<open>bound\<close>.
\<close>

definition iterations :: "real \<Rightarrow> nat" where
  "iterations bound = nat \<lceil>bound\<rceil>"

text \<open>
  \<open>buildTree\<close>, on an array of points.  Both draws are made before the split is
  examined.  When a point has no value at the feature index, \<open>minVal\<close> and the split
  value are NaN, every comparison with the split value is false, \<open>leftData\<close> is empty and
  the node is a leaf.
\<close>

function buildTree ::
  "(nat \<Rightarrow> real) \<Rightarrow> nat \<Rightarrow> real list list \<Rightarrow> nat \<Rightarrow> jsnum \<Rightarrow> tree \<times> nat" where
  "buildTree rnd i data currentDepth maxDepth =
     (if length data \<le> 1 \<or> depth_reached currentDepth maxDepth then (Leaf (length data), i)
      else
        (let numFeatures = length (hd data);
             featureIndex = random_index rnd i numFeatures;
             featureValues = map (\<lambda>point. feature_at point featureIndex) data
         in case all_defined featureValues of
              None \<Rightarrow> (Leaf (length data), i + 2)
            | Some vals \<Rightarrow>
                (let minVal = Math_min (hd vals) (tl vals);
                     maxVal = Math_max (hd vals) (tl vals);
                     splitValue = minVal + Math_random rnd (i + 1) * (maxVal - minVal);
                     leftData = filter (\<lambda>point. point ! featureIndex < splitValue) data;
                     rightData = filter (\<lambda>point. point ! featureIndex \<ge> splitValue) data
                 in if leftData = [] \<or> rightData = [] then (Leaf (length data), i + 2)
                    else
                      (let (l, i1) = buildTree rnd (i + 2) leftData (currentDepth + 1) maxDepth;
                           (r, i2) = buildTree rnd i1 rightData (currentDepth + 1) maxDepth
                       in (Internal featureIndex splitValue l r, i2)))))"
  by pat_completeness auto
termination
proof (relation "measure (\<lambda>(rnd, i, data, currentDepth, maxDepth). length data)", goal_cases)
  case 1
  show ?case by simp
next
  case (2 rnd i data currentDepth maxDepth x xa xb x2 xc xd xe xf xg)
  have "length xf + length xg = length data"
    unfolding 2(9) 2(10)
    using sum_length_filter_compl[of "\<lambda>point. point ! xa < xe" data]
    by (simp add: not_less)
  moreover have "xg \<noteq> []"
    using 2(11) by simp
  ultimately have "length xf < length data"
    by (cases xg) simp_all
  then show ?case by simp
next
  case (3 rnd i data currentDepth maxDepth x xa xb x2 xc xd xe xf xg xh xi y)
  have "length xf + length xg = length data"
    unfolding 3(9) 3(10)
    using sum_length_filter_compl[of "\<lambda>point. point ! xa < xe" data]
    by (simp add: not_less)
  moreover have "xf \<noteq> []"
    using 3(11) by simp
  ultimately have "length xg < length data"
    by (cases xf) simp_all
  then show ?case by simp
qed

declare buildTree.simps [simp del]

text \<open>
  The sampling loop of \<open>fit\<close>: \<open>k\<close> draws with replacement, each pushing
  \<open>data[Math.floor(Math.random() * data.length)]\<close>.
\<close>

fun draw_sample ::
  "(nat \<Rightarrow> real) \<Rightarrow> nat \<Rightarrow> real list list \<Rightarrow> nat \<Rightarrow> real list list
     \<Rightarrow> real list list \<times> nat" where
  "draw_sample rnd i data 0 sample = (sample, i)"
| "draw_sample rnd i data (Suc k) sample =
     draw_sample rnd (i + 1) data k (sample @ [data ! random_index rnd i (length data)])"

text \<open>
  The loop of \<open>fit\<close> over the trees, with the sample size \<open>m\<close> and the number of
  trees still to grow.  The inner loop runs while \<open>j < Math.min(sampleSize, data.length)\<close>.
\<close>

fun grow_trees ::
  "(nat \<Rightarrow> real) \<Rightarrow> nat \<Rightarrow> real list list \<Rightarrow> real \<Rightarrow> jsnum \<Rightarrow> nat \<Rightarrow> tree list
     \<Rightarrow> tree list" where
  "grow_trees rnd i data m maxDepth 0 ts = ts"
| "grow_trees rnd i data m maxDepth (Suc k) ts =
     (let (sample, i1) =
            draw_sample rnd i data (iterations (min m (real (length data)))) [];
          (tree, i2) = buildTree rnd i1 sample 0 maxDepth
      in grow_trees rnd i2 data m maxDepth k (ts @ [tree]))"

text \<open>\<open>fit\<close>, on an array of points.\<close>

definition fit :: "IsolationForest \<Rightarrow> real list list \<Rightarrow> (nat \<Rightarrow> real) \<Rightarrow> IsolationForest" where
  "fit f data rnd =
     (let maxDepth = maxDepth_of (sampleSize f)
      in f\<lparr> trees := grow_trees rnd 0 data (sampleSize f) maxDepth
                         (iterations (numTrees f)) [],
            trained := True \<rparr>)"

text \<open>
  The state in which a completed \<open>fit\<close> leaves a forest: one tree pushed per round
  of the loop over \<open>numTrees\<close>, and \<open>trained\<close> set.
\<close>

definition fitted :: "IsolationForest \<Rightarrow> bool" where
  "fitted f \<longleftrightarrow> trained f \<and> length (trees f) = iterations (numTrees f)"

section \<open>LSTMPredictor\<close>

text \<open>
  The TensorFlow model is opaque.  It is represented by what \<open>predict\<close> obtains from it
  for a normalized window: the number \<open>value[0]\<close> when \<open>tf.tensor3d\<close>,
  \<open>model.predict\<close>, \<open>prediction.data()\<close> and the two \<open>dispose\<close> calls all succeed, an
  error when one of them throws.  \<open>normParams\<close> is the pair \<open>(min, max)\<close>.
\<close>

type_synonym tf_model = "real list \<Rightarrow> error + real"

text \<open>Two models for the examples: one that throws, one that always answers the same.\<close>

definition throwing_model :: tf_model where
  "throwing_model normalized = Inl (Error ''shape mismatch'')"

definition constant_model :: "real \<Rightarrow> tf_model" where
  "constant_model v normalized = Inr v"

record LSTMPredictor =
  inputShape :: nat
  hiddenUnits :: nat
  model :: "tf_model option"
  trained :: bool
  normParams :: "(real \<times> real) option"

definition new_LSTMPredictor :: "nat \<Rightarrow> nat \<Rightarrow> LSTMPredictor" where
  "new_LSTMPredictor n h =
     \<lparr> inputShape = n, hiddenUnits = h, model = None, trained = False, normParams = None \<rparr>"

definition LSTMPredictor_denormalize :: "real \<Rightarrow> real \<Rightarrow> real \<Rightarrow> real" where
  "LSTMPredictor_denormalize v mn mx = v * (mx - mn) + mn"

text \<open>
  \<open>Array.isArray(sequence) && sequence.length ? sequence[sequence.length - 1] : 0\<close>.
  The argument is an array of numbers, or (\<open>None\<close>) a value that is not an array.
\<close>

definition last_or_zero :: "real list option \<Rightarrow> real" where
  "last_or_zero sequence =
     (case sequence of
        Some xs \<Rightarrow> if xs \<noteq> [] then last xs else 0
      | None \<Rightarrow> 0)"

text \<open>
  \<open>LSTMPredictor.predict\<close>.  On a value that is not an array \<open>sequence.map\<close> throws
  inside the \<open>try\<close>.
\<close>

definition LSTMPredictor_predict :: "LSTMPredictor \<Rightarrow> real list option \<Rightarrow> error + real" where
  "LSTMPredictor_predict l sequence =
     (let lastv = last_or_zero sequence
      in case (LSTMPredictor.trained l, model l, normParams l) of
           (True, Some m, Some (mn, mx)) \<Rightarrow>
             try_catch
               (case sequence of
                  None \<Rightarrow> Inl TypeError
                | Some xs \<Rightarrow>
                    (let normalized =
                           map (\<lambda>val. (val - mn) / (if mx - mn = 0 then 1 else mx - mn)) xs
                     in case m normalized of
                          Inl e \<Rightarrow> Inl e
                        | Inr v \<Rightarrow> Inr (LSTMPredictor_denormalize v mn mx)))
               (\<lambda>e. Inr lastv)
         | _ \<Rightarrow> Inr lastv)"

text \<open>\<open>xs.slice(-n)\<close>: the last \<open>n\<close> elements; \<open>slice(-0)\<close> is the whole array.\<close>

definition slice_last :: "nat \<Rightarrow> 'a list \<Rightarrow> 'a list" where
  "slice_last n xs = (if n = 0 then xs else drop (length xs - n) xs)"

text \<open>
  The loop of \<open>predictMultiStep\<close>, with the number of remaining iterations, the
  \<open>currentSequence\<close> and the \<open>predictions\<close> so far (\<open>preds\<close>).
\<close>

fun predictMultiStep_loop ::
  "LSTMPredictor \<Rightarrow> nat \<Rightarrow> real list \<Rightarrow> real list \<Rightarrow> error + real list" where
  "predictMultiStep_loop l 0 currentSequence preds = Inr preds"
| "predictMultiStep_loop l (Suc n) currentSequence preds =
     (let window = slice_last (inputShape l) currentSequence
      in case LSTMPredictor_predict l (Some window) of
           Inl e \<Rightarrow> Inl e
         | Inr nextValue \<Rightarrow>
             predictMultiStep_loop l n (currentSequence @ [nextValue])
               (preds @ [nextValue]))"

text \<open>
  \<open>predictMultiStep\<close>, for a number of steps that is a natural number.  The spread
  \<open>[...sequence]\<close> throws on a value that cannot be iterated.
\<close>

definition predictMultiStep ::
  "LSTMPredictor \<Rightarrow> real list option \<Rightarrow> nat \<Rightarrow> error + real list" where
  "predictMultiStep l sequence steps =
     (let lastv = last_or_zero sequence
      in if \<not> LSTMPredictor.trained l \<or> model l = None \<or> normParams l = None
         then Inr (replicate steps lastv)
         else (case sequence of
                 None \<Rightarrow> Inl TypeError
               | Some xs \<Rightarrow> predictMultiStep_loop l steps xs []))"

section \<open>ProcessClassifier\<close>

text \<open>
  The random-forest model of the library is opaque: \<open>rf_predict\<close> is the first element
  of \<open>model.predict([features])\<close> or the error thrown, and \<open>rf_predictionProba\<close> is
  present when \<open>typeof model.predictionProba === 'function'\<close>, giving the first element
  of its result (which may be \<open>undefined\<close>) or the error thrown.
\<close>

record rf_model =
  rf_predict :: "real list \<Rightarrow> error + int"
  rf_predictionProba :: "(real list \<Rightarrow> error + real list option) option"

record ProcessClassifier =
  model :: "rf_model option"
  classes :: "string list"
  trained :: bool

definition new_ProcessClassifier :: ProcessClassifier where
  "new_ProcessClassifier =
     \<lparr> model = None,
       classes = [''web-server'', ''database'', ''application'', ''cache'', ''ml-training'',
                  ''system''],
       trained = False \<rparr>"

text \<open>The fields of a process that the classifier reads; each may be missing.\<close>

record process_features =
  f_cpu :: "real option"
  f_memory :: "real option"
  f_threads :: "real option"
  f_priority :: "real option"
  f_ioRead :: "real option"
  f_ioWrite :: "real option"
  f_networkSent :: "real option"
  f_networkReceived :: "real option"

text \<open>The result \<open>{class, confidence, probabilities}\<close>; \<open>probabilities\<close> lists the entries of
  the object in insertion order, and \<open>{}\<close> is the empty list.\<close>

record classification =
  predicted_class :: "string option"
  confidence :: real
  probabilities :: "(string \<times> real) list"

text \<open>\<open>extractFeatures\<close>; on \<open>null\<close> or \<open>undefined\<close> the first field access throws.\<close>

definition extractFeatures :: "process_features option \<Rightarrow> error + real list" where
  "extractFeatures process =
     (case process of
        None \<Rightarrow> Inl TypeError
      | Some p \<Rightarrow>
          Inr [or_default (f_cpu p) 0, or_default (f_memory p) 0, or_default (f_threads p) 1,
               or_default (f_priority p) 0, or_default (f_ioRead p) 0,
               or_default (f_ioWrite p) 0, or_default (f_networkSent p) 0,
               or_default (f_networkReceived p) 0])"

text \<open>\<open>xs[i]\<close> for an integer index: \<open>undefined\<close> outside the array.\<close>

definition index_opt :: "'a list \<Rightarrow> int \<Rightarrow> 'a option" where
  "index_opt xs i = (if 0 \<le> i \<and> i < int (length xs) then Some (xs ! nat i) else None)"

text \<open>\<open>proba?.[i] ?? 0\<close>.\<close>

definition proba_at :: "real list option \<Rightarrow> int \<Rightarrow> real" where
  "proba_at proba i =
     (case proba of
        None \<Rightarrow> 0
      | Some ps \<Rightarrow> (case index_opt ps i of None \<Rightarrow> 0 | Some v \<Rightarrow> v))"

definition defaultResult :: classification where
  "defaultResult = \<lparr> predicted_class = Some ''unknown'', confidence = 0, probabilities = [] \<rparr>"

text \<open>\<open>ProcessClassifier.predict\<close>; \<open>pred\<close> is the source's \<open>prediction\<close>.\<close>

definition ProcessClassifier_predict ::
  "ProcessClassifier \<Rightarrow> process_features option \<Rightarrow> error + classification" where
  "ProcessClassifier_predict c process =
     (case (ProcessClassifier.trained c, ProcessClassifier.model c) of
        (True, Some m) \<Rightarrow>
          try_catch
            (case extractFeatures process of
               Inl e \<Rightarrow> Inl e
             | Inr features \<Rightarrow>
                 (case rf_predict m features of
                    Inl e \<Rightarrow> Inl e
                  | Inr pred \<Rightarrow>
                      (let className = index_opt (classes c) pred
                       in case rf_predictionProba m of
                            None \<Rightarrow>
                              Inr \<lparr> predicted_class = className, confidence = 0,
                                    probabilities = [] \<rparr>
                          | Some predictionProba \<Rightarrow>
                              (case predictionProba features of
                                 Inl e \<Rightarrow> Inl e
                               | Inr proba \<Rightarrow>
                                   Inr \<lparr> predicted_class = className,
                                         confidence = proba_at proba pred,
                                         probabilities =
                                           map (\<lambda>(idx, cls). (cls, proba_at proba (int idx)))
                                             (enumerate 0 (classes c)) \<rparr>))))
            (\<lambda>e. Inr defaultResult)
      | _ \<Rightarrow> Inr defaultResult)"

section \<open>MLService\<close>

text \<open>
  The object handed to \<open>storeMetrics\<close> by \<open>analyzeProcess\<close>, and the entry
  \<open>{...metrics, timestamp: Date.now()}\<close> that is pushed.
\<close>

record metrics =
  m_cpu :: "real option"
  m_memory :: "real option"
  m_ioRead :: real
  m_ioWrite :: real

record stored_metrics = metrics +
  timestamp :: int

record 'k MLService =
  anomalyDetector :: IsolationForest
  predictor :: LSTMPredictor
  classifier :: ProcessClassifier
  preprocessor :: DataPreprocessor
  metricsHistory :: "'k \<rightharpoonup> stored_metrics list"
  maxHistorySize :: nat
  isTraining :: bool

definition new_MLService :: "'k MLService" where
  "new_MLService =
     \<lparr> anomalyDetector = new_IsolationForest 100 256 0.1,
       predictor = new_LSTMPredictor 10 50,
       classifier = new_ProcessClassifier,
       preprocessor = new_DataPreprocessor,
       metricsHistory = Map.empty,
       maxHistorySize = 100,
       isTraining = False \<rparr>"

text \<open>
  \<open>storeMetrics\<close>; \<open>procId\<close> is the source's \<open>processId\<close> and \<open>now\<close> is the
  value of \<open>Date.now()\<close>.  One \<open>shift\<close> follows the
  \<open>push\<close> when the array has become longer than \<open>maxHistorySize\<close>.
\<close>

definition storeMetrics :: "'k MLService \<Rightarrow> 'k \<Rightarrow> metrics \<Rightarrow> int \<Rightarrow> 'k MLService" where
  "storeMetrics s procId m now =
     (let history = (case metricsHistory s procId of None \<Rightarrow> [] | Some h \<Rightarrow> h);
          history = history @ [metrics.extend m \<lparr> timestamp = now \<rparr>];
          history = (if length history > maxHistorySize s then tl history else history)
      in s\<lparr> metricsHistory := (metricsHistory s)(procId \<mapsto> history) \<rparr>)"

text \<open>
  \<open>predictFuture\<close>, for a number of steps that is a natural number; \<open>None\<close> is
  \<open>null\<close>.  \<open>this.predictor\<close> is always an object.
\<close>

definition predictFuture :: "'k MLService \<Rightarrow> 'k \<Rightarrow> nat \<Rightarrow> error + real list option" where
  "predictFuture s procId steps =
     try_catch
       (if \<not> LSTMPredictor.trained (predictor s) then Inr None
        else
          (case metricsHistory s procId of
             None \<Rightarrow> Inr None
           | Some history \<Rightarrow>
               if length history < 10 then Inr None
               else
                 (let cpuHistory = map (\<lambda>m. or_default (m_cpu m) 0) history
                  in case predictMultiStep (predictor s) (Some (slice_last 10 cpuHistory)) steps of
                       Inl e \<Rightarrow> Inl e
                     | Inr preds \<Rightarrow> Inr (Some preds))))
       (\<lambda>e. Inr None)"

text \<open>A history of \<open>storeMetrics\<close> calls: process, metrics and clock reading of each.\<close>

definition store_all :: "'k MLService \<Rightarrow> ('k \<times> metrics \<times> int) list \<Rightarrow> 'k MLService" where
  "store_all s calls = foldl (\<lambda>s (p, m, now). storeMetrics s p m now) s calls"

text \<open>The entries that a history of calls appended for one process, oldest first.\<close>

definition appended :: "'k \<Rightarrow> ('k \<times> metrics \<times> int) list \<Rightarrow> stored_metrics list" where
  "appended procId calls =
     map (\<lambda>(p, m, now). metrics.extend m \<lparr> timestamp = now \<rparr>)
       (filter (\<lambda>(p, m, now). p = procId) calls)"


section \<open>AlertService: checks in flight\<close>

text \<open>
  \<open>checkSystemThresholds\<close>, \<open>checkProcessThresholds\<close> and \<open>createAlert\<close> are \<open>async\<close>.
  A call of a check runs without interruption until a rule whose key is not in cooldown
  calls \<open>createAlert\<close>, which runs up to \<open>await alert.save()\<close>.  There the call is
  suspended and other calls on the same service can run.  When the save has settled,
  \<open>createAlert\<close> indexes the alert, or catches the failure, and returns; the check is
  suspended once more at \<open>await this.createAlert(...)\<close> until that result is delivered.
  Then it pushes the result, sets the cooldown of the key and goes on to its next rule.
  The service has no lock and no queue: between the cooldown test of a rule and the
  cooldown write that follows it, any other call can make its own test.
\<close>

subsection \<open>The rules\<close>

text \<open>
  What the condition of each block selects: the key and the object literal handed to
  \<open>createAlert\<close>, or nothing when the condition does not hold.  The conditions and the
  literals are those of the blocks of the two checks above.
\<close>

type_synonym rule = "alert_service \<Rightarrow> (string \<times> alertData) option"







subsection \<open>Suspended calls\<close>





subsection \<open>Schedules\<close>






subsection \<open>Two overlapping checks\<close>







subsection \<open>Calls that do not overlap\<close>


section \<open>AlertService: proofs\<close>

subsection \<open>The guarded block\<close>

lemma guarded_alert_cooldown:
  "alertCooldown (snd (guarded_alert s e key d out)) k =
     (if \<not> isInCooldown s (check_now e) key \<and> k = key then Some (set_now e)
      else alertCooldown s k)"
  by (simp add: guarded_alert_def createAlert_def setCooldown_def Let_def split: prod.splits)

lemma guarded_alert_period:
  "cooldownPeriod (snd (guarded_alert s e key d out)) = cooldownPeriod s"
  by (simp add: guarded_alert_def createAlert_def setCooldown_def Let_def split: prod.splits)

lemma guarded_alert_thresholds:
  "thresholds (snd (guarded_alert s e key d out)) = thresholds s"
  by (simp add: guarded_alert_def createAlert_def setCooldown_def Let_def split: prod.splits)

lemma guarded_alert_out:
  "fst (guarded_alert s e key d out) =
     (if isInCooldown s (check_now e) key then out
      else out @ [fst (createAlert s e d)])"
  by (simp add: guarded_alert_def Let_def split: prod.splits)

lemma alerts_for_append: "alerts_for k (xs @ ys) = alerts_for k xs @ alerts_for k ys"
  by (simp add: alerts_for_def List.map_filter_def)

lemma alerts_for_Nil: "alerts_for k [] = []"
  by (simp add: alerts_for_def List.map_filter_def)

lemma alerts_for_createAlert:
  "alerts_for k [fst (createAlert s e d)] =
     (if save_ok e \<and>
         k = (case processId d of
                None \<Rightarrow> ''system-'' @ metric d @ ''-'' @ alert_type d
              | Some p \<Rightarrow> ''process-'' @ p @ ''-'' @
                          (if source d = ''threshold'' then metric d else source d))
      then [the (fst (createAlert s e d))] else [])"
  by (auto simp: createAlert_def Let_def alerts_for_def List.map_filter_def alertKey_def
      split: option.splits)

lemma createAlert_None: "fst (createAlert s e d) = None \<longleftrightarrow> \<not> save_ok e"
  by (simp add: createAlert_def Let_def)

lemma isInCooldown_cong:
  "alertCooldown s' k = alertCooldown s k \<Longrightarrow> cooldownPeriod s' = cooldownPeriod s \<Longrightarrow>
   isInCooldown s' now k = isInCooldown s now k"
  by (simp add: isInCooldown_def split: option.splits)



lemma guarded_alert_unaffected:
  assumes "isInCooldown s (check_now e) k \<or> k \<noteq> key"
    and "(case processId d of
            None \<Rightarrow> ''system-'' @ metric d @ ''-'' @ alert_type d
          | Some p \<Rightarrow> ''process-'' @ p @ ''-'' @
                      (if source d = ''threshold'' then metric d else source d)) = key"
  shows "alerts_for k (fst (guarded_alert s e key d out)) = alerts_for k out"
    and "alertCooldown (snd (guarded_alert s e key d out)) k = alertCooldown s k"
  using assms
  by (auto simp: guarded_alert_out guarded_alert_cooldown alerts_for_append
      alerts_for_createAlert)

lemma guarded_alert_fires:
  assumes "\<not> isInCooldown s (check_now e) key" "save_ok e"
    and "(case processId d of
            None \<Rightarrow> ''system-'' @ metric d @ ''-'' @ alert_type d
          | Some p \<Rightarrow> ''process-'' @ p @ ''-'' @
                      (if source d = ''threshold'' then metric d else source d)) = key"
  shows "length (alerts_for key (fst (guarded_alert s e key d out)))
           = Suc (length (alerts_for key out))"
    and "alertCooldown (snd (guarded_alert s e key d out)) key = Some (set_now e)"
  using assms
  by (auto simp: guarded_alert_out guarded_alert_cooldown alerts_for_append
      alerts_for_createAlert)

lemma guarded_alert_null:
  assumes "\<not> isInCooldown s (check_now e) key" "\<not> save_ok e"
  shows "fst (guarded_alert s e key d out) = out @ [None]"
    and "alertCooldown (snd (guarded_alert s e key d out)) key = Some (set_now e)"
  using assms
  by (simp_all add: guarded_alert_out guarded_alert_cooldown createAlert_def)

lemma guarded_alert_prefix:
  "\<exists>ys. fst (guarded_alert s e key d out) = out @ ys"
  by (simp add: guarded_alert_out)

lemmas block_defs =
  system_cpu_check_def system_memory_check_def process_cpu_check_def
  process_anomaly_check_def process_prediction_check_def

lemma block_period:
  "cooldownPeriod (snd (system_cpu_check tf s st e out)) = cooldownPeriod s"
  "cooldownPeriod (snd (system_memory_check tf s st e out)) = cooldownPeriod s"
  "cooldownPeriod (snd (process_cpu_check tf s p e out)) = cooldownPeriod s"
  "cooldownPeriod (snd (process_anomaly_check tf s p ml e out)) = cooldownPeriod s"
  "cooldownPeriod (snd (process_prediction_check tf s p ml e out)) = cooldownPeriod s"
  by (simp_all add: block_defs guarded_alert_period Let_def split: option.splits)

lemma block_thresholds:
  "thresholds (snd (system_cpu_check tf s st e out)) = thresholds s"
  "thresholds (snd (system_memory_check tf s st e out)) = thresholds s"
  "thresholds (snd (process_cpu_check tf s p e out)) = thresholds s"
  "thresholds (snd (process_anomaly_check tf s p ml e out)) = thresholds s"
  "thresholds (snd (process_prediction_check tf s p ml e out)) = thresholds s"
  by (simp_all add: block_defs guarded_alert_thresholds Let_def split: option.splits)

lemma block_prefix:
  "\<exists>ys. fst (system_cpu_check tf s st e out) = out @ ys"
  "\<exists>ys. fst (system_memory_check tf s st e out) = out @ ys"
  "\<exists>ys. fst (process_cpu_check tf s p e out) = out @ ys"
  "\<exists>ys. fst (process_anomaly_check tf s p ml e out) = out @ ys"
  "\<exists>ys. fst (process_prediction_check tf s p ml e out) = out @ ys"
  by (simp_all add: block_defs guarded_alert_prefix Let_def split: option.splits)

lemma system_cpu_unaffected:
  assumes "isInCooldown s (check_now e) k \<or>
           (k \<noteq> ''system-cpu-critical'' \<and> k \<noteq> ''system-cpu-warning'')"
  shows "alerts_for k (fst (system_cpu_check tf s st e out)) = alerts_for k out"
    and "alertCooldown (snd (system_cpu_check tf s st e out)) k = alertCooldown s k"
  using assms by (auto simp: system_cpu_check_def guarded_alert_unaffected)

lemma system_memory_unaffected:
  assumes "isInCooldown s (check_now e) k \<or> k \<noteq> ''system-memory-critical''"
  shows "alerts_for k (fst (system_memory_check tf s st e out)) = alerts_for k out"
    and "alertCooldown (snd (system_memory_check tf s st e out)) k = alertCooldown s k"
  using assms by (auto simp: system_memory_check_def guarded_alert_unaffected)

lemma process_cpu_unaffected:
  assumes "isInCooldown s (check_now e) k \<or>
           k \<noteq> ''process-'' @ toString_nat (pid p) @ ''-cpu''"
  shows "alerts_for k (fst (process_cpu_check tf s p e out)) = alerts_for k out"
    and "alertCooldown (snd (process_cpu_check tf s p e out)) k = alertCooldown s k"
  using assms by (auto simp: process_cpu_check_def guarded_alert_unaffected)

lemma process_anomaly_unaffected:
  assumes "isInCooldown s (check_now e) k \<or>
           k \<noteq> ''process-'' @ toString_nat (pid p) @ ''-anomaly''"
  shows "alerts_for k (fst (process_anomaly_check tf s p ml e out)) = alerts_for k out"
    and "alertCooldown (snd (process_anomaly_check tf s p ml e out)) k = alertCooldown s k"
  using assms
  by (auto simp: process_anomaly_check_def guarded_alert_unaffected split: option.splits)

lemma process_prediction_unaffected:
  assumes "isInCooldown s (check_now e) k \<or>
           k \<noteq> ''process-'' @ toString_nat (pid p) @ ''-prediction''"
  shows "alerts_for k (fst (process_prediction_check tf s p ml e out)) = alerts_for k out"
    and "alertCooldown (snd (process_prediction_check tf s p ml e out)) k = alertCooldown s k"
  using assms
  by (auto simp: process_prediction_check_def Let_def guarded_alert_unaffected
      split: option.splits)

lemma system_cpu_critical_fires:
  assumes "cpu_usage st > critical (thr_cpu (thresholds s))"
    "\<not> isInCooldown s (check_now e) ''system-cpu-critical''"
  shows "save_ok e \<Longrightarrow> length (alerts_for ''system-cpu-critical'' (fst (system_cpu_check tf s st e out)))
           = Suc (length (alerts_for ''system-cpu-critical'' out))"
    and "\<not> save_ok e \<Longrightarrow> fst (system_cpu_check tf s st e out) = out @ [None]"
    and "alertCooldown (snd (system_cpu_check tf s st e out)) ''system-cpu-critical''
           = Some (set_now e)"
  using assms
  by (simp_all add: system_cpu_check_def guarded_alert_fires guarded_alert_null
      guarded_alert_cooldown)

lemma system_cpu_warning_fires:
  assumes "\<not> cpu_usage st > critical (thr_cpu (thresholds s))"
    "cpu_usage st > warning (thr_cpu (thresholds s))"
    "\<not> isInCooldown s (check_now e) ''system-cpu-warning''"
  shows "save_ok e \<Longrightarrow> length (alerts_for ''system-cpu-warning'' (fst (system_cpu_check tf s st e out)))
           = Suc (length (alerts_for ''system-cpu-warning'' out))"
    and "\<not> save_ok e \<Longrightarrow> fst (system_cpu_check tf s st e out) = out @ [None]"
    and "alertCooldown (snd (system_cpu_check tf s st e out)) ''system-cpu-warning''
           = Some (set_now e)"
  using assms
  by (simp_all add: system_cpu_check_def guarded_alert_fires guarded_alert_null
      guarded_alert_cooldown)

lemma system_memory_critical_fires:
  assumes "memory_usage st > critical (thr_memory (thresholds s))"
    "\<not> isInCooldown s (check_now e) ''system-memory-critical''"
  shows "save_ok e \<Longrightarrow> length (alerts_for ''system-memory-critical''
                    (fst (system_memory_check tf s st e out)))
           = Suc (length (alerts_for ''system-memory-critical'' out))"
    and "\<not> save_ok e \<Longrightarrow> fst (system_memory_check tf s st e out) = out @ [None]"
    and "alertCooldown (snd (system_memory_check tf s st e out)) ''system-memory-critical''
           = Some (set_now e)"
  using assms
  by (simp_all add: system_memory_check_def guarded_alert_fires guarded_alert_null
      guarded_alert_cooldown)

lemma process_cpu_fires:
  assumes "cpu p > 90"
    "\<not> isInCooldown s (check_now e) (''process-'' @ toString_nat (pid p) @ ''-cpu'')"
  shows "save_ok e \<Longrightarrow> length (alerts_for (''process-'' @ toString_nat (pid p) @ ''-cpu'')
                    (fst (process_cpu_check tf s p e out)))
           = Suc (length (alerts_for (''process-'' @ toString_nat (pid p) @ ''-cpu'') out))"
    and "\<not> save_ok e \<Longrightarrow> fst (process_cpu_check tf s p e out) = out @ [None]"
    and "alertCooldown (snd (process_cpu_check tf s p e out))
           (''process-'' @ toString_nat (pid p) @ ''-cpu'') = Some (set_now e)"
  using assms
  by (simp_all add: process_cpu_check_def guarded_alert_fires guarded_alert_null
      guarded_alert_cooldown)

lemma process_anomaly_fires:
  assumes "ml = Some m" "anomaly m = Some an" "isAnomaly an"
    "\<not> isInCooldown s (check_now e) (''process-'' @ toString_nat (pid p) @ ''-anomaly'')"
  shows "save_ok e \<Longrightarrow> length (alerts_for (''process-'' @ toString_nat (pid p) @ ''-anomaly'')
                    (fst (process_anomaly_check tf s p ml e out)))
           = Suc (length (alerts_for (''process-'' @ toString_nat (pid p) @ ''-anomaly'') out))"
    and "\<not> save_ok e \<Longrightarrow> fst (process_anomaly_check tf s p ml e out) = out @ [None]"
    and "alertCooldown (snd (process_anomaly_check tf s p ml e out))
           (''process-'' @ toString_nat (pid p) @ ''-anomaly'') = Some (set_now e)"
  using assms
  by (simp_all add: process_anomaly_check_def guarded_alert_fires guarded_alert_null
      guarded_alert_cooldown)

lemma process_prediction_fires:
  assumes "ml = Some m" "predictions m = Some ps" "ps \<noteq> []"
    "foldl (+) 0 ps / real (length ps) > 85"
    "\<not> isInCooldown s (check_now e) (''process-'' @ toString_nat (pid p) @ ''-prediction'')"
  shows "save_ok e \<Longrightarrow> length (alerts_for (''process-'' @ toString_nat (pid p) @ ''-prediction'')
                    (fst (process_prediction_check tf s p ml e out)))
           = Suc (length (alerts_for (''process-'' @ toString_nat (pid p) @ ''-prediction'') out))"
    and "\<not> save_ok e \<Longrightarrow> fst (process_prediction_check tf s p ml e out) = out @ [None]"
    and "alertCooldown (snd (process_prediction_check tf s p ml e out))
           (''process-'' @ toString_nat (pid p) @ ''-prediction'') = Some (set_now e)"
  using assms
  by (simp_all add: process_prediction_check_def Let_def guarded_alert_fires guarded_alert_null
      guarded_alert_cooldown)

subsection \<open>The two checks\<close>



lemma system_cpu_critical_alert:
  assumes "cpu_usage st > critical (thr_cpu (thresholds s))"
    "\<not> isInCooldown s (check_now e1) ''system-cpu-critical''"
  shows "save_ok e1 \<Longrightarrow>
           length (alerts_for ''system-cpu-critical'' (fst (checkSystemThresholds tf s st e1 e2))) = 1"
    and "\<not> save_ok e1 \<Longrightarrow> None \<in> set (fst (checkSystemThresholds tf s st e1 e2))"
    and "alertCooldown (snd (checkSystemThresholds tf s st e1 e2)) ''system-cpu-critical''
           = Some (set_now e1)"
proof -
  let ?b1 = "system_cpu_check tf s st e1 []"
  note f = system_cpu_critical_fires[OF assms, of tf "[]"]
  obtain ys where ys: "fst (system_memory_check tf (snd ?b1) st e2 (fst ?b1)) = fst ?b1 @ ys"
    using block_prefix(2) by blast
  show "save_ok e1 \<Longrightarrow>
           length (alerts_for ''system-cpu-critical'' (fst (checkSystemThresholds tf s st e1 e2))) = 1"
    using f(1) by (simp add: checkSystemThresholds_def split_beta system_memory_unaffected
        alerts_for_Nil)
  show "\<not> save_ok e1 \<Longrightarrow> None \<in> set (fst (checkSystemThresholds tf s st e1 e2))"
    using f(2) ys by (simp add: checkSystemThresholds_def split_beta)
  show "alertCooldown (snd (checkSystemThresholds tf s st e1 e2)) ''system-cpu-critical''
           = Some (set_now e1)"
    using f(3) by (simp add: checkSystemThresholds_def split_beta system_memory_unaffected)
qed

lemma system_cpu_warning_alert:
  assumes "\<not> cpu_usage st > critical (thr_cpu (thresholds s))"
    "cpu_usage st > warning (thr_cpu (thresholds s))"
    "\<not> isInCooldown s (check_now e1) ''system-cpu-warning''"
  shows "save_ok e1 \<Longrightarrow>
           length (alerts_for ''system-cpu-warning'' (fst (checkSystemThresholds tf s st e1 e2))) = 1"
    and "\<not> save_ok e1 \<Longrightarrow> None \<in> set (fst (checkSystemThresholds tf s st e1 e2))"
    and "alertCooldown (snd (checkSystemThresholds tf s st e1 e2)) ''system-cpu-warning''
           = Some (set_now e1)"
proof -
  let ?b1 = "system_cpu_check tf s st e1 []"
  note f = system_cpu_warning_fires[OF assms, of tf "[]"]
  obtain ys where ys: "fst (system_memory_check tf (snd ?b1) st e2 (fst ?b1)) = fst ?b1 @ ys"
    using block_prefix(2) by blast
  show "save_ok e1 \<Longrightarrow>
           length (alerts_for ''system-cpu-warning'' (fst (checkSystemThresholds tf s st e1 e2))) = 1"
    using f(1) by (simp add: checkSystemThresholds_def split_beta system_memory_unaffected
        alerts_for_Nil)
  show "\<not> save_ok e1 \<Longrightarrow> None \<in> set (fst (checkSystemThresholds tf s st e1 e2))"
    using f(2) ys by (simp add: checkSystemThresholds_def split_beta)
  show "alertCooldown (snd (checkSystemThresholds tf s st e1 e2)) ''system-cpu-warning''
           = Some (set_now e1)"
    using f(3) by (simp add: checkSystemThresholds_def split_beta system_memory_unaffected)
qed

lemma system_memory_critical_alert:
  assumes "memory_usage st > critical (thr_memory (thresholds s))"
    "\<not> isInCooldown s (check_now e2) ''system-memory-critical''"
  shows "save_ok e2 \<Longrightarrow>
           length (alerts_for ''system-memory-critical''
                     (fst (checkSystemThresholds tf s st e1 e2))) = 1"
    and "\<not> save_ok e2 \<Longrightarrow> None \<in> set (fst (checkSystemThresholds tf s st e1 e2))"
    and "alertCooldown (snd (checkSystemThresholds tf s st e1 e2)) ''system-memory-critical''
           = Some (set_now e2)"
proof -
  let ?b1 = "system_cpu_check tf s st e1 []"
  have u: "alerts_for ''system-memory-critical'' (fst ?b1) = []"
    "alertCooldown (snd ?b1) ''system-memory-critical'' = alertCooldown s ''system-memory-critical''"
    by (simp_all add: system_cpu_unaffected alerts_for_Nil)
  have c: "\<not> isInCooldown (snd ?b1) (check_now e2) ''system-memory-critical''"
    using assms(2) isInCooldown_cong[OF u(2) block_period(1)] by simp
  have t: "memory_usage st > critical (thr_memory (thresholds (snd ?b1)))"
    using assms(1) by (simp add: block_thresholds)
  note f = system_memory_critical_fires[OF t c, of tf "fst ?b1"]
  show "save_ok e2 \<Longrightarrow>
           length (alerts_for ''system-memory-critical''
                     (fst (checkSystemThresholds tf s st e1 e2))) = 1"
    using f(1) u(1) by (simp add: checkSystemThresholds_def split_beta)
  show "\<not> save_ok e2 \<Longrightarrow> None \<in> set (fst (checkSystemThresholds tf s st e1 e2))"
    using f(2) by (simp add: checkSystemThresholds_def split_beta)
  show "alertCooldown (snd (checkSystemThresholds tf s st e1 e2)) ''system-memory-critical''
           = Some (set_now e2)"
    using f(3) by (simp add: checkSystemThresholds_def split_beta)
qed

lemma process_cpu_alert:
  assumes "cpu p > 90"
    "\<not> isInCooldown s (check_now e1) (''process-'' @ toString_nat (pid p) @ ''-cpu'')"
  shows "save_ok e1 \<Longrightarrow>
           length (alerts_for (''process-'' @ toString_nat (pid p) @ ''-cpu'')
                     (fst (checkProcessThresholds tf s p ml e1 e2 e3))) = 1"
    and "\<not> save_ok e1 \<Longrightarrow> None \<in> set (fst (checkProcessThresholds tf s p ml e1 e2 e3))"
    and "alertCooldown (snd (checkProcessThresholds tf s p ml e1 e2 e3))
           (''process-'' @ toString_nat (pid p) @ ''-cpu'') = Some (set_now e1)"
proof -
  let ?b1 = "process_cpu_check tf s p e1 []"
  let ?b2 = "process_anomaly_check tf (snd ?b1) p ml e2 (fst ?b1)"
  let ?b3 = "process_prediction_check tf (snd ?b2) p ml e3 (fst ?b2)"
  note f = process_cpu_fires[OF assms, of tf "[]"]
  have r: "checkProcessThresholds tf s p ml e1 e2 e3 = ?b3"
    by (simp add: checkProcessThresholds_def split_beta)
  obtain ys where ys: "fst ?b2 = fst ?b1 @ ys"
    using block_prefix(4) by blast
  obtain zs where zs: "fst ?b3 = fst ?b2 @ zs"
    using block_prefix(5) by blast
  show "save_ok e1 \<Longrightarrow>
           length (alerts_for (''process-'' @ toString_nat (pid p) @ ''-cpu'')
                     (fst (checkProcessThresholds tf s p ml e1 e2 e3))) = 1"
    using f(1) unfolding r
    by (simp add: process_anomaly_unaffected process_prediction_unaffected alerts_for_Nil)
  show "\<not> save_ok e1 \<Longrightarrow> None \<in> set (fst (checkProcessThresholds tf s p ml e1 e2 e3))"
    using f(2) ys zs unfolding r by simp
  show "alertCooldown (snd (checkProcessThresholds tf s p ml e1 e2 e3))
           (''process-'' @ toString_nat (pid p) @ ''-cpu'') = Some (set_now e1)"
    using f(3) unfolding r
    by (simp add: process_anomaly_unaffected process_prediction_unaffected)
qed

lemma process_anomaly_alert:
  assumes "ml = Some m" "anomaly m = Some an" "isAnomaly an"
    "\<not> isInCooldown s (check_now e2) (''process-'' @ toString_nat (pid p) @ ''-anomaly'')"
  shows "save_ok e2 \<Longrightarrow>
           length (alerts_for (''process-'' @ toString_nat (pid p) @ ''-anomaly'')
                     (fst (checkProcessThresholds tf s p ml e1 e2 e3))) = 1"
    and "\<not> save_ok e2 \<Longrightarrow> None \<in> set (fst (checkProcessThresholds tf s p ml e1 e2 e3))"
    and "alertCooldown (snd (checkProcessThresholds tf s p ml e1 e2 e3))
           (''process-'' @ toString_nat (pid p) @ ''-anomaly'') = Some (set_now e2)"
proof -
  let ?k = "''process-'' @ toString_nat (pid p) @ ''-anomaly''"
  let ?b1 = "process_cpu_check tf s p e1 []"
  let ?b2 = "process_anomaly_check tf (snd ?b1) p ml e2 (fst ?b1)"
  let ?b3 = "process_prediction_check tf (snd ?b2) p ml e3 (fst ?b2)"
  have r: "checkProcessThresholds tf s p ml e1 e2 e3 = ?b3"
    by (simp add: checkProcessThresholds_def split_beta)
  have u: "alerts_for ?k (fst ?b1) = []" "alertCooldown (snd ?b1) ?k = alertCooldown s ?k"
    by (simp_all add: process_cpu_unaffected alerts_for_Nil)
  have c: "\<not> isInCooldown (snd ?b1) (check_now e2) ?k"
    using assms(4) isInCooldown_cong[OF u(2) block_period(3)] by simp
  note f = process_anomaly_fires[OF assms(1,2,3) c, of tf "fst ?b1"]
  obtain zs where zs: "fst ?b3 = fst ?b2 @ zs"
    using block_prefix(5) by blast
  show "save_ok e2 \<Longrightarrow>
           length (alerts_for ?k (fst (checkProcessThresholds tf s p ml e1 e2 e3))) = 1"
    using f(1) u(1) unfolding r by (simp add: process_prediction_unaffected)
  show "\<not> save_ok e2 \<Longrightarrow> None \<in> set (fst (checkProcessThresholds tf s p ml e1 e2 e3))"
    using f(2) zs unfolding r by simp
  show "alertCooldown (snd (checkProcessThresholds tf s p ml e1 e2 e3)) ?k = Some (set_now e2)"
    using f(3) unfolding r by (simp add: process_prediction_unaffected)
qed

lemma process_prediction_alert:
  assumes "ml = Some m" "predictions m = Some ps" "ps \<noteq> []"
    "foldl (+) 0 ps / real (length ps) > 85"
    "\<not> isInCooldown s (check_now e3) (''process-'' @ toString_nat (pid p) @ ''-prediction'')"
  shows "save_ok e3 \<Longrightarrow>
           length (alerts_for (''process-'' @ toString_nat (pid p) @ ''-prediction'')
                     (fst (checkProcessThresholds tf s p ml e1 e2 e3))) = 1"
    and "\<not> save_ok e3 \<Longrightarrow> None \<in> set (fst (checkProcessThresholds tf s p ml e1 e2 e3))"
    and "alertCooldown (snd (checkProcessThresholds tf s p ml e1 e2 e3))
           (''process-'' @ toString_nat (pid p) @ ''-prediction'') = Some (set_now e3)"
proof -
  let ?k = "''process-'' @ toString_nat (pid p) @ ''-prediction''"
  let ?b1 = "process_cpu_check tf s p e1 []"
  let ?b2 = "process_anomaly_check tf (snd ?b1) p ml e2 (fst ?b1)"
  let ?b3 = "process_prediction_check tf (snd ?b2) p ml e3 (fst ?b2)"
  have r: "checkProcessThresholds tf s p ml e1 e2 e3 = ?b3"
    by (simp add: checkProcessThresholds_def split_beta)
  have u1: "alerts_for ?k (fst ?b1) = []" "alertCooldown (snd ?b1) ?k = alertCooldown s ?k"
    by (simp_all add: process_cpu_unaffected alerts_for_Nil)
  have u2: "alerts_for ?k (fst ?b2) = []" "alertCooldown (snd ?b2) ?k = alertCooldown s ?k"
    using u1 by (simp_all add: process_anomaly_unaffected)
  have p2: "cooldownPeriod (snd ?b2) = cooldownPeriod s"
    by (simp add: block_period)
  have c: "\<not> isInCooldown (snd ?b2) (check_now e3) ?k"
    using assms(5) isInCooldown_cong[OF u2(2) p2] by simp
  note f = process_prediction_fires[OF assms(1,2,3,4) c, of tf "fst ?b2"]
  show "save_ok e3 \<Longrightarrow>
           length (alerts_for ?k (fst (checkProcessThresholds tf s p ml e1 e2 e3))) = 1"
    using f(1) u2(1) unfolding r by simp
  show "\<not> save_ok e3 \<Longrightarrow> None \<in> set (fst (checkProcessThresholds tf s p ml e1 e2 e3))"
    using f(2) unfolding r by simp
  show "alertCooldown (snd (checkProcessThresholds tf s p ml e1 e2 e3)) ?k = Some (set_now e3)"
    using f(3) unfolding r by simp
qed

lemma check_period:
  "cooldownPeriod (snd (checkSystemThresholds tf s st e1 e2)) = cooldownPeriod s"
  "cooldownPeriod (snd (checkProcessThresholds tf s p ml e1 e2 e3)) = cooldownPeriod s"
  by (simp_all add: checkSystemThresholds_def checkProcessThresholds_def split_beta block_period)



subsection \<open>Checks in flight\<close>















subsection \<open>Cooldown discipline\<close>






subsection \<open>A failed save\<close>

lemma cooldown_then_suppressed:
  assumes "alertCooldown s' key = Some t" "cooldownPeriod s' = P"
  shows "t \<noteq> 0 \<and> now - t < P \<longrightarrow> isInCooldown s' now key"
  using assms by (simp add: isInCooldown_def)

text \<open>
  Claim C10.  \<open>createAlert\<close> returns \<open>null\<close> exactly when the save fails.  For each
  of the six rules of \<open>checkSystemThresholds\<close> and \<open>checkProcessThresholds\<close>: when the
  rule's condition holds, its key is not in cooldown (so that \<open>createAlert\<close> is called)
  and the save fails, then \<open>null\<close> is an element
  of the returned array, the cooldown entry of the key is set all the same, and the key
  is in cooldown at every later time \<open>now\<close> with \<open>now - set_now < cooldownPeriod\<close>.
\<close>

theorem failed_save_sets_cooldown_and_returns_null:
  "(fst (createAlert s e alertData) = None \<longleftrightarrow> \<not> save_ok e) \<and>
   (cpu_usage st > critical (thr_cpu (thresholds s)) \<and>
      \<not> isInCooldown s (check_now e1) ''system-cpu-critical'' \<and> \<not> save_ok e1 \<longrightarrow>
      None \<in> set (fst (checkSystemThresholds toFixed s st e1 e2)) \<and>
      alertCooldown (snd (checkSystemThresholds toFixed s st e1 e2)) ''system-cpu-critical''
        = Some (set_now e1) \<and>
      (set_now e1 \<noteq> 0 \<and> now - set_now e1 < cooldownPeriod s \<longrightarrow>
         isInCooldown (snd (checkSystemThresholds toFixed s st e1 e2)) now
           ''system-cpu-critical'')) \<and>
   (\<not> cpu_usage st > critical (thr_cpu (thresholds s)) \<and>
      cpu_usage st > warning (thr_cpu (thresholds s)) \<and>
      \<not> isInCooldown s (check_now e1) ''system-cpu-warning'' \<and> \<not> save_ok e1 \<longrightarrow>
      None \<in> set (fst (checkSystemThresholds toFixed s st e1 e2)) \<and>
      alertCooldown (snd (checkSystemThresholds toFixed s st e1 e2)) ''system-cpu-warning''
        = Some (set_now e1) \<and>
      (set_now e1 \<noteq> 0 \<and> now - set_now e1 < cooldownPeriod s \<longrightarrow>
         isInCooldown (snd (checkSystemThresholds toFixed s st e1 e2)) now
           ''system-cpu-warning'')) \<and>
   (memory_usage st > critical (thr_memory (thresholds s)) \<and>
      \<not> isInCooldown s (check_now e2) ''system-memory-critical'' \<and> \<not> save_ok e2 \<longrightarrow>
      None \<in> set (fst (checkSystemThresholds toFixed s st e1 e2)) \<and>
      alertCooldown (snd (checkSystemThresholds toFixed s st e1 e2)) ''system-memory-critical''
        = Some (set_now e2) \<and>
      (set_now e2 \<noteq> 0 \<and> now - set_now e2 < cooldownPeriod s \<longrightarrow>
         isInCooldown (snd (checkSystemThresholds toFixed s st e1 e2)) now
           ''system-memory-critical'')) \<and>
   (cpu p > 90 \<and>
      \<not> isInCooldown s (check_now e1) (''process-'' @ toString_nat (pid p) @ ''-cpu'') \<and>
      \<not> save_ok e1 \<longrightarrow>
      None \<in> set (fst (checkProcessThresholds toFixed s p ml e1 e2 e3)) \<and>
      alertCooldown (snd (checkProcessThresholds toFixed s p ml e1 e2 e3))
        (''process-'' @ toString_nat (pid p) @ ''-cpu'') = Some (set_now e1) \<and>
      (set_now e1 \<noteq> 0 \<and> now - set_now e1 < cooldownPeriod s \<longrightarrow>
         isInCooldown (snd (checkProcessThresholds toFixed s p ml e1 e2 e3)) now
           (''process-'' @ toString_nat (pid p) @ ''-cpu''))) \<and>
   (ml = Some m \<and> anomaly m = Some an \<and> isAnomaly an \<and>
      \<not> isInCooldown s (check_now e2) (''process-'' @ toString_nat (pid p) @ ''-anomaly'') \<and>
      \<not> save_ok e2 \<longrightarrow>
      None \<in> set (fst (checkProcessThresholds toFixed s p ml e1 e2 e3)) \<and>
      alertCooldown (snd (checkProcessThresholds toFixed s p ml e1 e2 e3))
        (''process-'' @ toString_nat (pid p) @ ''-anomaly'') = Some (set_now e2) \<and>
      (set_now e2 \<noteq> 0 \<and> now - set_now e2 < cooldownPeriod s \<longrightarrow>
         isInCooldown (snd (checkProcessThresholds toFixed s p ml e1 e2 e3)) now
           (''process-'' @ toString_nat (pid p) @ ''-anomaly''))) \<and>
   (ml = Some m \<and> predictions m = Some ps \<and> ps \<noteq> [] \<and>
      foldl (+) 0 ps / real (length ps) > 85 \<and>
      \<not> isInCooldown s (check_now e3) (''process-'' @ toString_nat (pid p) @ ''-prediction'') \<and>
      \<not> save_ok e3 \<longrightarrow>
      None \<in> set (fst (checkProcessThresholds toFixed s p ml e1 e2 e3)) \<and>
      alertCooldown (snd (checkProcessThresholds toFixed s p ml e1 e2 e3))
        (''process-'' @ toString_nat (pid p) @ ''-prediction'') = Some (set_now e3) \<and>
      (set_now e3 \<noteq> 0 \<and> now - set_now e3 < cooldownPeriod s \<longrightarrow>
         isInCooldown (snd (checkProcessThresholds toFixed s p ml e1 e2 e3)) now
           (''process-'' @ toString_nat (pid p) @ ''-prediction'')))"
proof (intro conjI impI; (elim conjE)?)
  show "fst (createAlert s e alertData) = None \<longleftrightarrow> \<not> save_ok e"
    by (rule createAlert_None)
  note sp = check_period(1)[of toFixed s st e1 e2]
  note pp = check_period(2)[of toFixed s p ml e1 e2 e3]
  {
    assume h: "cpu_usage st > critical (thr_cpu (thresholds s))"
      "\<not> isInCooldown s (check_now e1) ''system-cpu-critical''" "\<not> save_ok e1"
    note r = system_cpu_critical_alert[OF h(1,2), of toFixed e2]
    show "None \<in> set (fst (checkSystemThresholds toFixed s st e1 e2))"
      using r(2) h(3) by simp
    show "alertCooldown (snd (checkSystemThresholds toFixed s st e1 e2)) ''system-cpu-critical''
            = Some (set_now e1)"
      by (rule r(3))
    assume "set_now e1 \<noteq> 0" "now - set_now e1 < cooldownPeriod s"
    then show "isInCooldown (snd (checkSystemThresholds toFixed s st e1 e2)) now
                 ''system-cpu-critical''"
      using cooldown_then_suppressed[OF r(3) sp] by simp
  }
  {
    assume h: "\<not> cpu_usage st > critical (thr_cpu (thresholds s))"
      "cpu_usage st > warning (thr_cpu (thresholds s))"
      "\<not> isInCooldown s (check_now e1) ''system-cpu-warning''" "\<not> save_ok e1"
    note r = system_cpu_warning_alert[OF h(1,2,3), of toFixed e2]
    show "None \<in> set (fst (checkSystemThresholds toFixed s st e1 e2))"
      using r(2) h(4) by simp
    show "alertCooldown (snd (checkSystemThresholds toFixed s st e1 e2)) ''system-cpu-warning''
            = Some (set_now e1)"
      by (rule r(3))
    assume "set_now e1 \<noteq> 0" "now - set_now e1 < cooldownPeriod s"
    then show "isInCooldown (snd (checkSystemThresholds toFixed s st e1 e2)) now
                 ''system-cpu-warning''"
      using cooldown_then_suppressed[OF r(3) sp] by simp
  }
  {
    assume h: "memory_usage st > critical (thr_memory (thresholds s))"
      "\<not> isInCooldown s (check_now e2) ''system-memory-critical''" "\<not> save_ok e2"
    note r = system_memory_critical_alert[OF h(1,2), of toFixed e1]
    show "None \<in> set (fst (checkSystemThresholds toFixed s st e1 e2))"
      using r(2) h(3) by simp
    show "alertCooldown (snd (checkSystemThresholds toFixed s st e1 e2))
            ''system-memory-critical'' = Some (set_now e2)"
      by (rule r(3))
    assume "set_now e2 \<noteq> 0" "now - set_now e2 < cooldownPeriod s"
    then show "isInCooldown (snd (checkSystemThresholds toFixed s st e1 e2)) now
                 ''system-memory-critical''"
      using cooldown_then_suppressed[OF r(3) sp] by simp
  }
  {
    assume h: "cpu p > 90"
      "\<not> isInCooldown s (check_now e1) (''process-'' @ toString_nat (pid p) @ ''-cpu'')"
      "\<not> save_ok e1"
    note r = process_cpu_alert[OF h(1,2), of toFixed ml e2 e3]
    show "None \<in> set (fst (checkProcessThresholds toFixed s p ml e1 e2 e3))"
      using r(2) h(3) by simp
    show "alertCooldown (snd (checkProcessThresholds toFixed s p ml e1 e2 e3))
            (''process-'' @ toString_nat (pid p) @ ''-cpu'') = Some (set_now e1)"
      by (rule r(3))
    assume "set_now e1 \<noteq> 0" "now - set_now e1 < cooldownPeriod s"
    then show "isInCooldown (snd (checkProcessThresholds toFixed s p ml e1 e2 e3)) now
                 (''process-'' @ toString_nat (pid p) @ ''-cpu'')"
      using cooldown_then_suppressed[OF r(3) pp] by simp
  }
  {
    assume h: "ml = Some m" "anomaly m = Some an" "isAnomaly an"
      "\<not> isInCooldown s (check_now e2) (''process-'' @ toString_nat (pid p) @ ''-anomaly'')"
      "\<not> save_ok e2"
    note r = process_anomaly_alert[OF h(1,2,3,4), of toFixed e1 e3]
    show "None \<in> set (fst (checkProcessThresholds toFixed s p ml e1 e2 e3))"
      using r(2) h(5) by simp
    show "alertCooldown (snd (checkProcessThresholds toFixed s p ml e1 e2 e3))
            (''process-'' @ toString_nat (pid p) @ ''-anomaly'') = Some (set_now e2)"
      by (rule r(3))
    assume "set_now e2 \<noteq> 0" "now - set_now e2 < cooldownPeriod s"
    then show "isInCooldown (snd (checkProcessThresholds toFixed s p ml e1 e2 e3)) now
                 (''process-'' @ toString_nat (pid p) @ ''-anomaly'')"
      using cooldown_then_suppressed[OF r(3) pp] by simp
  }
  {
    assume h: "ml = Some m" "predictions m = Some ps" "ps \<noteq> []"
      "foldl (+) 0 ps / real (length ps) > 85"
      "\<not> isInCooldown s (check_now e3) (''process-'' @ toString_nat (pid p) @ ''-prediction'')"
      "\<not> save_ok e3"
    note r = process_prediction_alert[OF h(1,2,3,4,5), of toFixed e1 e2]
    show "None \<in> set (fst (checkProcessThresholds toFixed s p ml e1 e2 e3))"
      using r(2) h(6) by simp
    show "alertCooldown (snd (checkProcessThresholds toFixed s p ml e1 e2 e3))
            (''process-'' @ toString_nat (pid p) @ ''-prediction'') = Some (set_now e3)"
      by (rule r(3))
    assume "set_now e3 \<noteq> 0" "now - set_now e3 < cooldownPeriod s"
    then show "isInCooldown (snd (checkProcessThresholds toFixed s p ml e1 e2 e3)) now
                 (''process-'' @ toString_nat (pid p) @ ''-prediction'')"
      using cooldown_then_suppressed[OF r(3) pp] by simp
  }
qed

text \<open>C10 on the constructor's state, CPU usage 96 and a save that fails.\<close>

theorem failed_save_sets_cooldown_and_returns_null_witness:
  "(let toFixed = (\<lambda>x n. ''96.0'');
        st = \<lparr> cpu_usage = 96, memory_usage = 40 \<rparr>;
        failing = \<lparr> check_now = 1000, fresh_id = ''1000-a'', save_ok = False, set_now = 1001 \<rparr>;
        r = checkSystemThresholds toFixed new_AlertService st failing failing
    in cpu_usage st > critical (thr_cpu (thresholds new_AlertService)) \<and>
       \<not> isInCooldown new_AlertService (check_now failing) ''system-cpu-critical'' \<and>
       \<not> save_ok failing \<and>
       None \<in> set (fst r) \<and>
       alertCooldown (snd r) ''system-cpu-critical'' = Some 1001 \<and>
       isInCooldown (snd r) 2000 ''system-cpu-critical'')"
proof -
  define toFixed :: "real \<Rightarrow> nat \<Rightarrow> string" where "toFixed = (\<lambda>x n. ''96.0'')"
  define st where "st = \<lparr> cpu_usage = 96, memory_usage = 40 \<rparr>"
  define failing where
    "failing = \<lparr> check_now = 1000, fresh_id = ''1000-a'', save_ok = False, set_now = 1001 \<rparr>"
  have h: "cpu_usage st > critical (thr_cpu (thresholds new_AlertService))"
    "\<not> isInCooldown new_AlertService (check_now failing) ''system-cpu-critical''"
    "\<not> save_ok failing"
    by (simp_all add: st_def failing_def new_AlertService_def isInCooldown_def)
  have "None \<in> set (fst (checkSystemThresholds toFixed new_AlertService st failing failing)) \<and>
       alertCooldown (snd (checkSystemThresholds toFixed new_AlertService st failing failing))
         ''system-cpu-critical'' = Some 1001 \<and>
       isInCooldown (snd (checkSystemThresholds toFixed new_AlertService st failing failing))
         2000 ''system-cpu-critical''"
    using h failed_save_sets_cooldown_and_returns_null[where s = new_AlertService and st = st
        and ?e1.0 = failing and ?e2.0 = failing and toFixed = toFixed and now = 2000]
    by (simp add: failing_def new_AlertService_def)
  with h show ?thesis
    unfolding Let_def toFixed_def st_def failing_def by blast
qed

subsection \<open>The memory warning tier\<close>

text \<open>
  Claim C2.  The claim asks for a warning alert when memory usage is above 75 and not
  above 90.  The memory block of \<open>checkSystemThresholds\<close> has a critical branch only:
  at memory usage 80 (and CPU usage 10) on the constructor's state, with no key in
  cooldown, the check returns the empty array and leaves the state as it was.
\<close>

theorem memory_warning_band_emits_nothing:
  "checkSystemThresholds toFixed new_AlertService \<lparr> cpu_usage = 10, memory_usage = 80 \<rparr> e_cpu e_mem
     = ([], new_AlertService)"
  by (simp add: checkSystemThresholds_def system_cpu_check_def system_memory_check_def
      new_AlertService_def)

section \<open>DataPreprocessor: proofs\<close>

lemma as_array_simps [simp]:
  "as_array (ArrayArg xs) = xs" "as_array (NumberArg x) = [x]"
  by (simp_all add: as_array_def)

text \<open>
  Claim C7.  For every non-empty input of \<open>normalize\<close> and every feature name,
  \<open>denormalize\<close> of the normalized values under the same feature name gives back the
  original values.  Over the reals the round trip is exact; the constant series, whose
  range is replaced by \<open>1\<close>, is included.
\<close>

theorem normalize_denormalize_roundtrip:
  assumes "as_array data \<noteq> []"
  shows "denormalize (snd (normalize_values p data featureName))
           (ArrayArg (fst (normalize_values p data featureName))) featureName
         = Inr (map Num (as_array data))"
proof -
  obtain v vs where d: "as_array data = v # vs"
    using assms by (cases "as_array data") auto
  define rng where "rng = (if Math_max v vs - Math_min v vs = 0 then 1
                           else Math_max v vs - Math_min v vs)"
  have r: "rng \<noteq> 0" by (simp add: rng_def)
  have n: "normalize_values p data featureName =
             (map (\<lambda>val. (val - Math_min v vs) / rng) (v # vs),
              p\<lparr> scalers := (scalers p)(featureName \<mapsto>
                     MinMaxScaler (Num (Math_min v vs)) (Num (Math_max v vs)) (Num rng)) \<rparr>)"
    by (simp add: normalize_values_def d Let_def rng_def)
  show ?thesis
    using r by (simp add: n d denormalize_def)
qed

text \<open>C7 on the constant series \<open>[5, 5, 5]\<close> and on \<open>[2, 4, 10]\<close>.\<close>

theorem normalize_denormalize_roundtrip_witness:
  "as_array (ArrayArg [5, 5, 5]) \<noteq> [] \<and>
   as_array (ArrayArg [2, 4, 10]) \<noteq> [] \<and>
   fst (normalize_values new_DataPreprocessor (ArrayArg [5, 5, 5]) ''cpu'') = [0, 0, 0] \<and>
   denormalize (snd (normalize_values new_DataPreprocessor (ArrayArg [5, 5, 5]) ''cpu''))
     (ArrayArg [0, 0, 0]) ''cpu'' = Inr [Num 5, Num 5, Num 5] \<and>
   fst (normalize_values new_DataPreprocessor (ArrayArg [2, 4, 10]) ''cpu'') = [0, 1 / 4, 1] \<and>
   denormalize (snd (normalize_values new_DataPreprocessor (ArrayArg [2, 4, 10]) ''cpu''))
     (ArrayArg [0, 1 / 4, 1]) ''cpu'' = Inr [Num 2, Num 4, Num 10]"
proof -
  have a: "as_array (ArrayArg [5, 5, 5]) \<noteq> []" "as_array (ArrayArg [2, 4, 10]) \<noteq> []"
    by simp_all
  have f: "fst (normalize_values new_DataPreprocessor (ArrayArg [5, 5, 5]) ''cpu'') = [0, 0, 0]"
    "fst (normalize_values new_DataPreprocessor (ArrayArg [2, 4, 10]) ''cpu'') = [0, 1 / 4, 1]"
    by (simp_all add: normalize_values_def Let_def)
  show ?thesis
    using a f normalize_denormalize_roundtrip[OF a(1), of new_DataPreprocessor "''cpu''"]
      normalize_denormalize_roundtrip[OF a(2), of new_DataPreprocessor "''cpu''"]
    by simp
qed

lemma normalize_scalers:
  "scalers (snd (normalize_values p data f)) k = (if k = f then scalers (snd (normalize_values p data f)) f else scalers p k)"
  "scalers (snd (normalize_values p data f)) f \<noteq> None"
  by (simp_all add: normalize_values_def Let_def split: list.splits)

lemma standardize_scalers:
  "scalers (snd (standardize p data f)) k = (if k = f then scalers (snd (standardize p data f)) f else scalers p k)"
  "scalers (snd (standardize p data f)) f \<noteq> None"
  by (simp_all add: standardize_def Let_def split: list.splits)

lemma scaling_step_other:
  "scaled_feature c \<noteq> k \<Longrightarrow> scalers (scaling_step p c) k = scalers p k"
  by (cases c) (simp_all add: normalize_values_def standardize_def Let_def split: list.splits)

lemma scaling_steps_other:
  "k \<notin> scaled_feature ` set cs \<Longrightarrow> scalers (foldl scaling_step p cs) k = scalers p k"
  by (induction cs arbitrary: p) (auto simp: scaling_step_other)

text \<open>
  Claim C9.  On a preprocessor built by the constructor and taken through any calls of
  \<open>normalize\<close> and \<open>standardize\<close> none of which names the feature, and more generally
  on any preprocessor with no scaler recorded for the feature, \<open>denormalize\<close> raises the
  error \<open>No scaler found for feature: <name>\<close> (the unknown-scaler error); right after a
  \<open>normalize\<close> for the feature it returns values and does not raise.
\<close>

theorem denormalize_unknown_scaler:
  "(featureName \<notin> scaled_feature ` set calls \<longrightarrow>
      denormalize (foldl scaling_step new_DataPreprocessor calls) normalizedData featureName
        = Inl (Error (''No scaler found for feature: '' @ featureName))) \<and>
   (scalers p featureName = None \<longrightarrow>
      denormalize p normalizedData featureName
        = Inl (Error (''No scaler found for feature: '' @ featureName))) \<and>
   (\<exists>values. denormalize (snd (normalize_values p data featureName)) normalizedData featureName
        = Inr values)"
proof (intro conjI impI)
  assume "featureName \<notin> scaled_feature ` set calls"
  then have "scalers (foldl scaling_step new_DataPreprocessor calls) featureName = None"
    by (simp add: scaling_steps_other new_DataPreprocessor_def)
  then show "denormalize (foldl scaling_step new_DataPreprocessor calls) normalizedData featureName
        = Inl (Error (''No scaler found for feature: '' @ featureName))"
    by (simp add: denormalize_def)
next
  assume "scalers p featureName = None"
  then show "denormalize p normalizedData featureName
        = Inl (Error (''No scaler found for feature: '' @ featureName))"
    by (simp add: denormalize_def)
next
  obtain sc where "scalers (snd (normalize_values p data featureName)) featureName = Some sc"
    using normalize_scalers(2)[of p data featureName] by blast
  then show "\<exists>values. denormalize (snd (normalize_values p data featureName)) normalizedData featureName
        = Inr values"
    by (simp add: denormalize_def Let_def)
qed

text \<open>
  C9 for the feature \<open>memory\<close> after scalers were recorded for \<open>cpu\<close> and \<open>io\<close> only,
  and after a \<open>normalize\<close> of \<open>[1, 3]\<close> for \<open>memory\<close>.
\<close>

theorem denormalize_unknown_scaler_witness:
  "''memory'' \<notin> scaled_feature ` set [Normalize (ArrayArg [1, 2]) ''cpu'', Standardize (NumberArg 3) ''io''] \<and>
   denormalize (foldl scaling_step new_DataPreprocessor
                  [Normalize (ArrayArg [1, 2]) ''cpu'', Standardize (NumberArg 3) ''io''])
      (ArrayArg [1 / 2]) ''memory''
     = Inl (Error ''No scaler found for feature: memory'') \<and>
   denormalize (snd (normalize_values new_DataPreprocessor (ArrayArg [1, 3]) ''memory''))
      (ArrayArg [1 / 2]) ''memory'' = Inr [Num 2]"
proof -
  have h: "''memory'' \<notin> scaled_feature `
             set [Normalize (ArrayArg [1, 2]) ''cpu'', Standardize (NumberArg 3) ''io'']"
    by simp
  have e: "denormalize (snd (normalize_values new_DataPreprocessor (ArrayArg [1, 3]) ''memory''))
      (ArrayArg [1 / 2]) ''memory'' = Inr [Num 2]"
    by (simp add: denormalize_def normalize_values_def Let_def)
  show ?thesis
    using h e denormalize_unknown_scaler[of "''memory''"
        "[Normalize (ArrayArg [1, 2]) ''cpu'', Standardize (NumberArg 3) ''io'']"
        "ArrayArg [1 / 2]" new_DataPreprocessor "ArrayArg [1, 3]"]
    by simp
qed

section \<open>IsolationForest: proofs\<close>

subsection \<open>Path lengths\<close>

lemma ln2_lower: "1 / 2 \<le> ln (2::real)"
  using ln_le_minus_one[of "1/2::real"] by (simp add: ln_div)

lemma c_factor_pos:
  assumes "2 \<le> n"
  shows "0 < c_factor n"
proof (cases "n = 2")
  case True
  then show ?thesis by (simp add: c_factor_def)
next
  case False
  with assms have n: "3 \<le> n" by simp
  then have "2 \<le> real n - 1" by simp
  then have "ln 2 \<le> ln (real n - 1)" by (intro ln_mono) simp_all
  with ln2_lower have l: "1 / 2 \<le> ln (real n - 1)" by simp
  have "2 * (real n - 1) / real n \<le> 2"
    using n by (simp add: field_simps)
  with l show ?thesis by (simp add: c_factor_def)
qed

lemma pathLength_nonneg:
  "pathLength point t d = Inr v \<Longrightarrow> 0 \<le> v"
proof (induction t arbitrary: d)
  case (Leaf n)
  then show ?case
    using c_factor_pos[of n] by (auto simp: Let_def split: if_splits)
next
  case (Internal fi sv l r)
  then show ?case by (auto split: option.splits if_splits)
qed

lemma pathLength_Some:
  "\<exists>v. pathLength (Some xs) t d = Inr v"
  by (induction t arbitrary: d) (auto simp: Let_def)

lemma sum_pathLengths_nonneg:
  "sum_pathLengths point s ts = Inr v \<Longrightarrow> 0 \<le> s \<Longrightarrow> 0 \<le> v"
proof (induction ts arbitrary: s)
  case Nil
  then show ?case by simp
next
  case (Cons t ts)
  then show ?case
    by (auto split: sum.splits dest!: pathLength_nonneg)
qed

lemma sum_pathLengths_Some:
  "\<exists>v. sum_pathLengths (Some xs) s ts = Inr v"
proof (induction ts arbitrary: s)
  case Nil
  then show ?case by simp
next
  case (Cons t ts)
  obtain len where "pathLength (Some xs) t 0 = Inr len"
    using pathLength_Some by blast
  with Cons show ?case by simp
qed

subsection \<open>The correction term of \<open>predict\<close>\<close>

lemma c_sample_above_1:
  "1 < n \<Longrightarrow> c_sample n = Num (2 * (ln (n - 1) + 0.5772156649) - 2 * (n - 1) / n)"
  by (simp add: c_sample_def Math_log_def js_sub_def)

lemma c_sample_1: "c_sample 1 = NegInfinity"
  by (simp add: c_sample_def Math_log_def js_sub_def)

lemma c_sample_below_1: "n < 1 \<Longrightarrow> c_sample n = NaN"
  by (simp add: c_sample_def Math_log_def js_sub_def)

lemma c_sample_pos:
  assumes "2 \<le> n"
  shows "\<exists>c. c_sample n = Num c \<and> 0 < c"
proof -
  have p: "0 < n - 1" "0 < n" using assms by simp_all
  have "ln (1 / (n - 1)) \<le> 1 / (n - 1) - 1"
    using p by (intro ln_le_minus_one) simp
  then have l: "1 - 1 / (n - 1) \<le> ln (n - 1)"
    using p by (simp add: ln_div)
  have "2 \<le> n * (n - 1)"
    using assms mult_mono[of 2 n 1 "n - 1"] by simp
  then have "1 / (n * (n - 1)) \<le> 1 / 2"
    using p by (simp add: field_simps)
  moreover have "1 / (n - 1) - 1 / n = 1 / (n * (n - 1))"
    using p by (simp add: field_simps)
  ultimately have d: "1 / (n - 1) - 1 / n \<le> 1 / 2" by simp
  have "2 * (ln (n - 1) + 0.5772156649) - 2 * (n - 1) / n
               = 2 * (ln (n - 1) + 0.5772156649 - 1 + 1 / n)"
    using p by (simp add: field_simps)
  moreover have "0 < ln (n - 1) + 0.5772156649 - 1 + 1 / n"
    using l d by simp
  ultimately have "0 < 2 * (ln (n - 1) + 0.5772156649) - 2 * (n - 1) / n"
    by simp
  then show ?thesis
    using assms by (simp add: c_sample_above_1)
qed

subsection \<open>The score\<close>

lemma predict_untrained:
  "\<not> IsolationForest.trained f \<or> trees f = [] \<Longrightarrow>
   IsolationForest_predict f point = Inr (Num 0)"
  by (auto simp: IsolationForest_predict_def)

lemma predict_total: "\<exists>v. IsolationForest_predict f point = Inr v"
  by (simp add: IsolationForest_predict_def try_catch_def Let_def split: sum.splits)

lemma predict_caught:
  "sum_pathLengths point 0 (trees f) = Inl e \<Longrightarrow> IsolationForest_predict f point = Inr (Num 0)"
  by (simp add: IsolationForest_predict_def try_catch_def)

lemma predict_score:
  assumes "IsolationForest.trained f" "trees f \<noteq> []"
    "sum_pathLengths point 0 (trees f) = Inr tot"
  shows "IsolationForest_predict f point
           = Inr (Math_pow2 (js_div (js_neg (js_div (Num tot) (Num (numTrees f))))
                                    (c_sample (sampleSize f))))"
  using assms by (simp add: IsolationForest_predict_def try_catch_def Let_def)

lemma score_in_unit_interval:
  assumes "0 \<le> tot" "0 < k" "n = 1 \<or> 2 \<le> n"
  shows "\<exists>v. Math_pow2 (js_div (js_neg (js_div (Num tot) (Num k))) (c_sample n)) = Num v
             \<and> 0 < v \<and> v \<le> 1"
proof (cases "n = 1")
  case True
  then show ?thesis
    using assms(2) by (simp add: c_sample_1)
next
  case False
  with assms(3) have n: "2 \<le> n" by simp
  obtain c where c: "c_sample n = Num c" "0 < c"
    using c_sample_pos[OF n] by blast
  have e: "- (tot / k) / c \<le> 0"
    using assms(1,2) c(2) by (simp add: divide_nonpos_pos)
  have "2 powr (- (tot / k) / c) \<le> (1::real)"
    using powr_le_cancel_iff[of 2 "- (tot / k) / c" 0] e by simp
  then show ?thesis
    using assms(2) c by simp
qed

subsection \<open>What \<open>fit\<close> leaves\<close>

lemma grow_trees_length:
  "length (grow_trees rnd i data m maxDepth k ts) = length ts + k"
  by (induction k arbitrary: i ts) (simp_all add: split_beta)

lemma fit_fields:
  "numTrees (fit f data rnd) = numTrees f"
  "sampleSize (fit f data rnd) = sampleSize f"
  "IsolationForest.trained (fit f data rnd)"
  "length (trees (fit f data rnd)) = iterations (numTrees f)"
  by (simp_all add: fit_def Let_def grow_trees_length)

lemma fit_fitted: "fitted (fit f data rnd)"
  by (simp add: fitted_def fit_fields)

lemma fit_trees_nonempty: "0 < numTrees f \<Longrightarrow> trees (fit f data rnd) \<noteq> []"
  using fit_fields(4)[of f data rnd] by (auto simp: iterations_def)

lemma fitted_score:
  assumes "fitted f" "trees f \<noteq> []"
  shows "\<exists>tot. 0 \<le> tot \<and> 0 < numTrees f \<and>
           IsolationForest_predict f (Some xs)
             = Inr (Math_pow2 (js_div (js_neg (js_div (Num tot) (Num (numTrees f))))
                                      (c_sample (sampleSize f))))"
proof -
  obtain tot where t: "sum_pathLengths (Some xs) 0 (trees f) = Inr tot"
    using sum_pathLengths_Some by blast
  have t0: "0 \<le> tot"
    using sum_pathLengths_nonneg[OF t] by simp
  have "iterations (numTrees f) = length (trees f)"
    using assms(1) by (simp add: fitted_def)
  then have "0 < iterations (numTrees f)"
    using assms(2) by simp
  then have k: "0 < numTrees f"
    by (simp add: iterations_def)
  have "IsolationForest.trained f"
    using assms(1) by (simp add: fitted_def)
  from predict_score[OF this assms(2) t] t0 k show ?thesis by blast
qed

lemma fitted_sample_size_0:
  assumes "fitted f" "trees f \<noteq> []" "sampleSize f = 0"
  shows "IsolationForest_predict f (Some xs) = Inr NaN"
proof -
  obtain tot where "0 < numTrees f"
    "IsolationForest_predict f (Some xs)
       = Inr (Math_pow2 (js_div (js_neg (js_div (Num tot) (Num (numTrees f))))
                                (c_sample (sampleSize f))))"
    using fitted_score[OF assms(1,2)] by blast
  then show ?thesis
    by (simp add: assms(3) c_sample_below_1)
qed

lemma fitted_sample_size_1:
  assumes "fitted f" "trees f \<noteq> []" "sampleSize f = 1"
  shows "IsolationForest_predict f (Some xs) = Inr (Num 1)"
proof -
  obtain tot where "0 < numTrees f"
    "IsolationForest_predict f (Some xs)
       = Inr (Math_pow2 (js_div (js_neg (js_div (Num tot) (Num (numTrees f))))
                                (c_sample (sampleSize f))))"
    using fitted_score[OF assms(1,2)] by blast
  then show ?thesis
    by (simp add: assms(3) c_sample_1)
qed

text \<open>
  With a sample size of 1 or of at least 2, the score of a fitted forest on a vector of
  numbers is a number above 0 and at most 1.
\<close>

lemma fitted_score_in_unit_interval:
  assumes "fitted f" "trees f \<noteq> []" "sampleSize f = 1 \<or> 2 \<le> sampleSize f"
  shows "\<exists>v. IsolationForest_predict f (Some xs) = Inr (Num v) \<and> 0 < v \<and> v \<le> 1"
proof -
  obtain tot where t: "0 \<le> tot" "0 < numTrees f"
    "IsolationForest_predict f (Some xs)
       = Inr (Math_pow2 (js_div (js_neg (js_div (Num tot) (Num (numTrees f))))
                                (c_sample (sampleSize f))))"
    using fitted_score[OF assms(1,2)] by blast
  from score_in_unit_interval[OF t(1,2) assms(3)] t(3)
  show ?thesis by auto
qed

text \<open>The leaf term of \<open>pathLength\<close>.\<close>

lemma pathLength_leaf:
  "pathLength point (Leaf 1) currentDepth = Inr (real currentDepth + 0)"
  "1 < n \<Longrightarrow>
     pathLength point (Leaf n) currentDepth =
       Inr (real currentDepth +
            (2 * (ln (real n - 1) + 0.5772156649) - 2 * (real n - 1) / real n))"
  by (simp_all add: c_factor_def)

subsection \<open>A forest with sample size 1.5\<close>







subsection \<open>The range of the score\<close>


section \<open>Fail-safe inference: proofs\<close>

lemma LSTM_predict_total: "\<exists>v. LSTMPredictor_predict l sequence = Inr v"
  by (auto simp: LSTMPredictor_predict_def try_catch_def Let_def
      split: option.splits sum.splits bool.splits prod.splits)

lemma LSTM_predict_unusable:
  "\<not> LSTMPredictor.trained l \<or> LSTMPredictor.model l = None \<or> normParams l = None \<Longrightarrow>
   LSTMPredictor_predict l sequence = Inr (last_or_zero sequence)"
  by (auto simp: LSTMPredictor_predict_def Let_def split: option.splits bool.splits)

lemma LSTM_predict_throws:
  assumes "LSTMPredictor.model l = Some m" "normParams l = Some (mn, mx)"
    "sequence = None \<or>
     (\<exists>xs e. sequence = Some xs \<and>
        m (map (\<lambda>val. (val - mn) / (if mx - mn = 0 then 1 else mx - mn)) xs) = Inl e)"
  shows "LSTMPredictor_predict l sequence = Inr (last_or_zero sequence)"
  using assms
  by (auto simp: LSTMPredictor_predict_def try_catch_def Let_def split: bool.splits)

text \<open>
  Neither \<open>IsolationForest.predict\<close> nor \<open>LSTMPredictor.predict\<close> raises, on any
  input.  \<open>IsolationForest.predict\<close> returns \<open>0\<close> when the forest is untrained or has no
  trees, and when a step inside the \<open>try\<close> throws (the traversal of a tree is the only
  step that can); when no step throws it returns the score as computed.
  \<open>LSTMPredictor.predict\<close> returns the last element of the window, or \<open>0\<close> for an empty
  window or a value that is not an array, when the predictor is untrained, the model or
  the scaling parameters are missing, or inference throws.
\<close>

lemma inference_degrades_to_defaults:
  "(\<exists>v. IsolationForest_predict f point = Inr v) \<and>
   (\<not> IsolationForest.trained f \<or> trees f = [] \<longrightarrow>
      IsolationForest_predict f point = Inr (Num 0)) \<and>
   ((\<exists>e. sum_pathLengths point 0 (trees f) = Inl e) \<longrightarrow>
      IsolationForest_predict f point = Inr (Num 0)) \<and>
   (IsolationForest.trained f \<and> trees f \<noteq> [] \<and>
    sum_pathLengths point 0 (trees f) = Inr pathSum \<longrightarrow>
      IsolationForest_predict f point =
        Inr (Math_pow2 (js_div (js_neg (js_div (Num pathSum) (Num (numTrees f))))
                               (c_sample (sampleSize f))))) \<and>
   (\<exists>v. LSTMPredictor_predict l sequence = Inr v) \<and>
   (\<not> LSTMPredictor.trained l \<or> LSTMPredictor.model l = None \<or> normParams l = None \<longrightarrow>
      LSTMPredictor_predict l sequence = Inr (last_or_zero sequence)) \<and>
   (LSTMPredictor.model l = Some m \<and> normParams l = Some (mn, mx) \<and>
    (sequence = None \<or>
     (\<exists>xs e. sequence = Some xs \<and>
        m (map (\<lambda>val. (val - mn) / (if mx - mn = 0 then 1 else mx - mn)) xs) = Inl e)) \<longrightarrow>
      LSTMPredictor_predict l sequence = Inr (last_or_zero sequence)) \<and>
   last_or_zero (Some (ys @ [y])) = y \<and> last_or_zero (Some []) = 0 \<and> last_or_zero None = 0"
proof (intro conjI impI)
  show "\<exists>v. IsolationForest_predict f point = Inr v"
    by (rule predict_total)
  show "IsolationForest_predict f point = Inr (Num 0)"
    if "\<not> IsolationForest.trained f \<or> trees f = []"
    using that by (rule predict_untrained)
  show "IsolationForest_predict f point = Inr (Num 0)"
    if "\<exists>e. sum_pathLengths point 0 (trees f) = Inl e"
    using that predict_caught by blast
  show "IsolationForest_predict f point =
        Inr (Math_pow2 (js_div (js_neg (js_div (Num pathSum) (Num (numTrees f))))
                               (c_sample (sampleSize f))))"
    if "IsolationForest.trained f \<and> trees f \<noteq> [] \<and>
        sum_pathLengths point 0 (trees f) = Inr pathSum"
    using that predict_score by blast
  show "\<exists>v. LSTMPredictor_predict l sequence = Inr v"
    by (rule LSTM_predict_total)
  show "LSTMPredictor_predict l sequence = Inr (last_or_zero sequence)"
    if "\<not> LSTMPredictor.trained l \<or> LSTMPredictor.model l = None \<or> normParams l = None"
    using that by (rule LSTM_predict_unusable)
  show "LSTMPredictor_predict l sequence = Inr (last_or_zero sequence)"
    if "LSTMPredictor.model l = Some m \<and> normParams l = Some (mn, mx) \<and>
        (sequence = None \<or>
         (\<exists>xs e. sequence = Some xs \<and>
            m (map (\<lambda>val. (val - mn) / (if mx - mn = 0 then 1 else mx - mn)) xs) = Inl e))"
    using that LSTM_predict_throws[of l m mn mx sequence] by blast
  show "last_or_zero (Some (ys @ [y])) = y" "last_or_zero (Some []) = 0" "last_or_zero None = 0"
    by (simp_all add: last_or_zero_def)
qed

text \<open>
  Claim C4 says that \<open>IsolationForest.predict\<close> returns \<open>0\<close> when an internal numeric
  step fails.  The code does not: the \<open>catch\<close> of \<open>predict\<close> sees only what throws, and
  the logarithm of a number that is not positive does not throw.  On the forest that
  \<open>fit\<close> leaves from \<open>new IsolationForest(100, 1, 0.1)\<close>, for any data, any random draws
  and any vector of numbers, \<open>Math.log(sampleSize - 1)\<close> is the logarithm of \<open>0\<close>,
  \<open>-Infinity\<close>, and \<open>predict\<close> returns \<open>1\<close>, the score of a certain anomaly.  From
  \<open>new IsolationForest(100, 0, 0.1)\<close> the logarithm is that of \<open>-1\<close>, NaN, and \<open>predict\<close>
  returns NaN.
\<close>

theorem numeric_fault_not_absorbed:
  "Math_log (sampleSize (fit (new_IsolationForest 100 1 0.1) data rnd) - 1) = NegInfinity \<and>
   IsolationForest_predict (fit (new_IsolationForest 100 1 0.1) data rnd) (Some xs)
     = Inr (Num 1) \<and>
   Math_log (sampleSize (fit (new_IsolationForest 100 0 0.1) data rnd) - 1) = NaN \<and>
   IsolationForest_predict (fit (new_IsolationForest 100 0 0.1) data rnd) (Some xs)
     = Inr NaN"
proof -
  let ?f1 = "fit (new_IsolationForest 100 1 0.1) data rnd"
  let ?f0 = "fit (new_IsolationForest 100 0 0.1) data rnd"
  have 1: "IsolationForest_predict ?f1 (Some xs) = Inr (Num 1)"
    by (rule fitted_sample_size_1)
      (simp_all add: fit_fitted fit_trees_nonempty fit_fields new_IsolationForest_def)
  have 0: "IsolationForest_predict ?f0 (Some xs) = Inr NaN"
    by (rule fitted_sample_size_0)
      (simp_all add: fit_fitted fit_trees_nonempty fit_fields new_IsolationForest_def)
  show ?thesis
    using 0 1 by (simp add: Math_log_def fit_fields new_IsolationForest_def)
qed

text \<open>
  Both cases on two points: the forests are trained and have trees, so the early return
  of \<open>predict\<close> is not taken, and the results are \<open>1\<close> and NaN.
\<close>

theorem numeric_fault_not_absorbed_witness:
  "IsolationForest.trained
     (fit (new_IsolationForest 100 1 0.1) [[5, 1], [7, 2]] (constant_draws (1 / 4))) \<and>
   trees (fit (new_IsolationForest 100 1 0.1) [[5, 1], [7, 2]] (constant_draws (1 / 4))) \<noteq> [] \<and>
   IsolationForest_predict
     (fit (new_IsolationForest 100 1 0.1) [[5, 1], [7, 2]] (constant_draws (1 / 4))) (Some [5, 1])
     = Inr (Num 1) \<and>
   IsolationForest.trained
     (fit (new_IsolationForest 100 0 0.1) [[5, 1], [7, 2]] (constant_draws (1 / 4))) \<and>
   trees (fit (new_IsolationForest 100 0 0.1) [[5, 1], [7, 2]] (constant_draws (1 / 4))) \<noteq> [] \<and>
   IsolationForest_predict
     (fit (new_IsolationForest 100 0 0.1) [[5, 1], [7, 2]] (constant_draws (1 / 4))) (Some [5, 1])
     = Inr NaN"
proof -
  note T = numeric_fault_not_absorbed[where data = "[[5, 1], [7, 2]]"
      and rnd = "constant_draws (1 / 4)" and xs = "[5, 1]"]
  have t: "IsolationForest.trained
             (fit (new_IsolationForest 100 1 0.1) [[5, 1], [7, 2]] (constant_draws (1 / 4)))"
    "IsolationForest.trained
             (fit (new_IsolationForest 100 0 0.1) [[5, 1], [7, 2]] (constant_draws (1 / 4)))"
    by (rule fit_fields)+
  have n: "trees (fit (new_IsolationForest 100 1 0.1) [[5, 1], [7, 2]] (constant_draws (1 / 4))) \<noteq> []"
    "trees (fit (new_IsolationForest 100 0 0.1) [[5, 1], [7, 2]] (constant_draws (1 / 4))) \<noteq> []"
    by (rule fit_trees_nonempty, simp add: new_IsolationForest_def)+
  from T t n show ?thesis by simp
qed
section \<open>ProcessClassifier: proofs\<close>

text \<open>
  Claim C5.  On a classifier whose \<open>trained\<close> flag is false, \<open>predict\<close> returns exactly
  \<open>{class: 'unknown', confidence: 0, probabilities: {}}\<close> for every input process, also
  for \<open>null\<close>, and does not raise.
\<close>

theorem untrained_classifier_returns_unknown:
  "\<not> ProcessClassifier.trained c \<longrightarrow>
     ProcessClassifier_predict c process =
       Inr \<lparr> predicted_class = Some ''unknown'', confidence = 0, probabilities = [] \<rparr>"
  by (simp add: ProcessClassifier_predict_def defaultResult_def split: option.splits)

text \<open>C5 on the constructor's classifier, for a process and for \<open>null\<close>.\<close>

theorem untrained_classifier_returns_unknown_witness:
  "\<not> ProcessClassifier.trained new_ProcessClassifier \<and>
   ProcessClassifier_predict new_ProcessClassifier
     (Some \<lparr> f_cpu = Some 35, f_memory = Some 400, f_threads = Some 80, f_priority = Some 10,
             f_ioRead = None, f_ioWrite = None, f_networkSent = None,
             f_networkReceived = None \<rparr>)
     = Inr \<lparr> predicted_class = Some ''unknown'', confidence = 0, probabilities = [] \<rparr> \<and>
   ProcessClassifier_predict new_ProcessClassifier None
     = Inr \<lparr> predicted_class = Some ''unknown'', confidence = 0, probabilities = [] \<rparr>"
proof -
  have h: "\<not> ProcessClassifier.trained new_ProcessClassifier"
    by (simp add: new_ProcessClassifier_def)
  show ?thesis
    using h untrained_classifier_returns_unknown[of new_ProcessClassifier]
    by simp
qed

section \<open>MLService: proofs\<close>

subsection \<open>The history buffer\<close>

lemma shift_over_cap:
  fixes A :: "'a list"
  shows "(if length (drop (length A - cap) A @ [e]) > cap
          then tl (drop (length A - cap) A @ [e])
          else drop (length A - cap) A @ [e])
         = drop (length (A @ [e]) - cap) (A @ [e])"
proof (cases "cap \<le> length A")
  case True
  then have "Suc (length A) - cap = Suc (length A - cap)" by simp
  moreover have "drop (length A - cap) A @ [e] = drop (length A - cap) (A @ [e])"
    by simp
  ultimately show ?thesis
    using True by (simp add: drop_Suc tl_drop del: drop_append)
next
  case False
  then show ?thesis by simp
qed

lemma appended_snoc:
  "appended p (calls @ [(q, m, now)]) =
     (if q = p then appended p calls @ [metrics.extend m \<lparr> timestamp = now \<rparr>]
      else appended p calls)"
  by (simp add: appended_def)

lemma store_all_snoc:
  "store_all s (calls @ [(q, m, now)]) = storeMetrics (store_all s calls) q m now"
  by (simp add: store_all_def)

lemma storeMetrics_cap: "maxHistorySize (storeMetrics s q m now) = maxHistorySize s"
  by (simp add: storeMetrics_def Let_def)

lemma store_all_cap: "maxHistorySize (store_all s calls) = maxHistorySize s"
  by (induction calls rule: rev_induct) (auto simp: store_all_snoc storeMetrics_cap store_all_def)

lemma store_all_history:
  assumes "metricsHistory s = Map.empty"
  shows "metricsHistory (store_all s calls) p =
           (if appended p calls = [] then None
            else Some (drop (length (appended p calls) - maxHistorySize s) (appended p calls)))"
proof (induction calls rule: rev_induct)
  case Nil
  then show ?case using assms by (simp add: store_all_def appended_def)
next
  case (snoc c calls)
  obtain q m now where c: "c = (q, m, now)" by (cases c) auto
  let ?A = "appended p calls"
  let ?e = "metrics.extend m \<lparr> timestamp = now \<rparr>"
  let ?cap = "maxHistorySize s"
  show ?case
  proof (cases "q = p")
    case False
    then show ?thesis
      using snoc by (simp add: c store_all_snoc appended_snoc storeMetrics_def Let_def)
  next
    case True
    have old: "(case metricsHistory (store_all s calls) p of None \<Rightarrow> [] | Some h \<Rightarrow> h)
                 = drop (length ?A - ?cap) ?A"
      using snoc by simp
    have "metricsHistory (store_all s (calls @ [c])) p =
            Some (if length (drop (length ?A - ?cap) ?A @ [?e]) > ?cap
                  then tl (drop (length ?A - ?cap) ?A @ [?e])
                  else drop (length ?A - ?cap) ?A @ [?e])"
      using True old
      by (simp add: c store_all_snoc storeMetrics_def Let_def store_all_cap del: drop_append)
    also have "\<dots> = Some (drop (length (?A @ [?e]) - ?cap) (?A @ [?e]))"
      by (simp only: shift_over_cap)
    finally show ?thesis
      using True by (simp add: c appended_snoc)
  qed
qed

text \<open>
  Claim C6.  Start from a service with no history and run any sequence of
  \<open>storeMetrics\<close> calls.  Then for every process the buffer is absent exactly when
  nothing was appended for the process, and otherwise it is no longer than
  \<open>maxHistorySize\<close> and consists of the last \<open>maxHistorySize\<close> entries appended for the
  process (all of them when there are fewer), oldest first.  As the sequence of calls is
  arbitrary, this holds after each call.
\<close>

theorem history_buffer_bounded_fifo:
  "metricsHistory s = Map.empty \<longrightarrow>
     (case metricsHistory (store_all s calls) p of
        None \<Rightarrow> appended p calls = []
      | Some history \<Rightarrow>
          length history \<le> maxHistorySize s \<and>
          history = drop (length (appended p calls) - maxHistorySize s) (appended p calls) \<and>
          appended p calls \<noteq> [])"
proof
  assume "metricsHistory s = Map.empty"
  from store_all_history[OF this, of calls p] show
    "case metricsHistory (store_all s calls) p of
        None \<Rightarrow> appended p calls = []
      | Some history \<Rightarrow>
          length history \<le> maxHistorySize s \<and>
          history = drop (length (appended p calls) - maxHistorySize s) (appended p calls) \<and>
          appended p calls \<noteq> []"
    by (simp split: if_splits)
qed

text \<open>C6 with cap 2: three entries for process 7, one for process 8, none for 9.\<close>

theorem history_buffer_bounded_fifo_witness:
  "(let s = (new_MLService :: nat MLService)\<lparr> maxHistorySize := 2 \<rparr>;
        m1 = \<lparr> m_cpu = Some 10, m_memory = Some 100, m_ioRead = 0, m_ioWrite = 0 \<rparr>;
        m2 = \<lparr> m_cpu = Some 20, m_memory = Some 100, m_ioRead = 0, m_ioWrite = 0 \<rparr>;
        m3 = \<lparr> m_cpu = Some 30, m_memory = Some 100, m_ioRead = 0, m_ioWrite = 0 \<rparr>;
        calls = [(7, m1, 1000), (8, m1, 1500), (7, m2, 2000), (7, m3, 3000)]
    in maxHistorySize (new_MLService :: nat MLService) = 100 \<and>
       metricsHistory s = Map.empty \<and>
       metricsHistory (store_all s calls) 7
         = Some [metrics.extend m2 \<lparr> timestamp = 2000 \<rparr>, metrics.extend m3 \<lparr> timestamp = 3000 \<rparr>] \<and>
       metricsHistory (store_all s calls) 9 = None)"
proof -
  define s where "s = (new_MLService :: nat MLService)\<lparr> maxHistorySize := 2 \<rparr>"
  define m1 where "m1 = \<lparr> m_cpu = Some 10, m_memory = Some 100, m_ioRead = 0, m_ioWrite = 0 \<rparr>"
  define m2 where "m2 = \<lparr> m_cpu = Some 20, m_memory = Some 100, m_ioRead = 0, m_ioWrite = 0 \<rparr>"
  define m3 where "m3 = \<lparr> m_cpu = Some 30, m_memory = Some 100, m_ioRead = 0, m_ioWrite = 0 \<rparr>"
  define calls where "calls = [(7::nat, m1, 1000::int), (8, m1, 1500), (7, m2, 2000), (7, m3, 3000)]"
  have h: "metricsHistory s = Map.empty" "maxHistorySize s = 2"
    by (simp_all add: s_def new_MLService_def)
  have a: "appended 7 calls =
             [metrics.extend m1 \<lparr> timestamp = 1000 \<rparr>, metrics.extend m2 \<lparr> timestamp = 2000 \<rparr>,
              metrics.extend m3 \<lparr> timestamp = 3000 \<rparr>]"
    "appended 9 calls = []"
    by (simp_all add: appended_def calls_def)
  have 1: "metricsHistory (store_all s calls) 7
         = Some [metrics.extend m2 \<lparr> timestamp = 2000 \<rparr>, metrics.extend m3 \<lparr> timestamp = 3000 \<rparr>]"
    using history_buffer_bounded_fifo[where s = s and calls = calls and p = 7] h a(1)
    by (simp split: option.splits)
  have 2: "metricsHistory (store_all s calls) 9 = None"
    using history_buffer_bounded_fifo[where s = s and calls = calls and p = 9] h a(2)
    by (simp split: option.splits)
  have d: "maxHistorySize (new_MLService :: nat MLService) = 100"
    by (simp add: new_MLService_def)
  show ?thesis
    using d h(1) 1 2 unfolding Let_def s_def m1_def m2_def m3_def calls_def by blast
qed

subsection \<open>Forecasts\<close>

lemma predictMultiStep_loop_length:
  "\<exists>r. predictMultiStep_loop l n cur preds = Inr r \<and> length r = length preds + n"
proof (induction n arbitrary: cur preds)
  case 0
  then show ?case by simp
next
  case (Suc n)
  obtain v where v: "LSTMPredictor_predict l (Some (slice_last (inputShape l) cur)) = Inr v"
    using LSTM_predict_total by blast
  from Suc[of "cur @ [v]" "preds @ [v]"] v show ?case
    by (simp add: Let_def)
qed

lemma predictMultiStep_length:
  "\<exists>r. predictMultiStep l (Some xs) steps = Inr r \<and> length r = steps"
  using predictMultiStep_loop_length[of l steps xs "[]"]
  by (simp add: predictMultiStep_def Let_def)

text \<open>
  Claim C8.  \<open>predictFuture\<close> returns \<open>null\<close> when the predictor is untrained or when
  fewer than 10 entries are stored for the process (none at all included); otherwise it
  returns an array of exactly \<open>steps\<close> forecast values.  It does not raise.
\<close>

theorem predictFuture_null_or_steps:
  "(\<not> LSTMPredictor.trained (predictor s) \<or>
    (case metricsHistory s procId of None \<Rightarrow> True | Some history \<Rightarrow> length history < 10) \<longrightarrow>
      predictFuture s procId steps = Inr None) \<and>
   (LSTMPredictor.trained (predictor s) \<and>
    (case metricsHistory s procId of None \<Rightarrow> False | Some history \<Rightarrow> 10 \<le> length history) \<longrightarrow>
      (\<exists>forecast. predictFuture s procId steps = Inr (Some forecast) \<and>
                  length forecast = steps))"
proof (intro conjI impI)
  assume "\<not> LSTMPredictor.trained (predictor s) \<or>
    (case metricsHistory s procId of None \<Rightarrow> True | Some history \<Rightarrow> length history < 10)"
  then show "predictFuture s procId steps = Inr None"
    by (auto simp: predictFuture_def try_catch_def split: option.splits)
next
  assume a: "LSTMPredictor.trained (predictor s) \<and>
    (case metricsHistory s procId of None \<Rightarrow> False | Some history \<Rightarrow> 10 \<le> length history)"
  then obtain history where h: "metricsHistory s procId = Some history" "10 \<le> length history"
    by (auto split: option.splits)
  obtain r where r:
    "predictMultiStep (predictor s)
       (Some (slice_last 10 (map (\<lambda>m. or_default (m_cpu m) 0) history))) steps = Inr r"
    "length r = steps"
    using predictMultiStep_length by blast
  have "predictFuture s procId steps = Inr (Some r)"
    using a h r(1) by (simp add: predictFuture_def try_catch_def Let_def)
  with r(2) show "\<exists>forecast. predictFuture s procId steps = Inr (Some forecast) \<and>
                  length forecast = steps"
    by blast
qed

text \<open>
  C8 on a service with an untrained predictor, with a trained predictor and 9 entries,
  for a process without entries, and with a trained predictor and 10 entries.
\<close>

theorem predictFuture_null_or_steps_witness:
  "(let e = metrics.extend \<lparr> m_cpu = Some 40, m_memory = Some 100, m_ioRead = 0, m_ioWrite = 0 \<rparr>
              \<lparr> timestamp = 1000 \<rparr>;
        l = \<lparr> inputShape = 10, hiddenUnits = 50, model = Some (constant_model (1 / 2)),
              trained = True, normParams = Some (0, 100) \<rparr>;
        cold = (new_MLService :: nat MLService)\<lparr> metricsHistory := [1 \<mapsto> replicate 10 e] \<rparr>;
        short = (new_MLService :: nat MLService)
                  \<lparr> predictor := l, metricsHistory := [1 \<mapsto> replicate 9 e] \<rparr>;
        warm = (new_MLService :: nat MLService)
                  \<lparr> predictor := l, metricsHistory := [1 \<mapsto> replicate 10 e] \<rparr>
    in predictFuture cold 1 3 = Inr None \<and>
       predictFuture short 1 3 = Inr None \<and>
       predictFuture warm 2 3 = Inr None \<and>
       (\<exists>forecast. predictFuture warm 1 3 = Inr (Some forecast) \<and> length forecast = 3))"
proof -
  define e where
    "e = metrics.extend \<lparr> m_cpu = Some 40, m_memory = Some 100, m_ioRead = 0, m_ioWrite = 0 \<rparr>
              \<lparr> timestamp = 1000 \<rparr>"
  define l where "l = \<lparr> inputShape = 10, hiddenUnits = 50, model = Some (constant_model (1 / 2)),
              trained = True, normParams = Some (0, 100) \<rparr>"
  define cold where
    "cold = (new_MLService :: nat MLService)\<lparr> metricsHistory := [1 \<mapsto> replicate 10 e] \<rparr>"
  define short where
    "short = (new_MLService :: nat MLService)
               \<lparr> predictor := l, metricsHistory := [1 \<mapsto> replicate 9 e] \<rparr>"
  define warm where
    "warm = (new_MLService :: nat MLService)
               \<lparr> predictor := l, metricsHistory := [1 \<mapsto> replicate 10 e] \<rparr>"
  have 1: "predictFuture cold 1 3 = Inr None"
    using predictFuture_null_or_steps[of cold 1 3]
    by (simp add: cold_def new_MLService_def new_LSTMPredictor_def)
  have 2: "predictFuture short 1 3 = Inr None"
    using predictFuture_null_or_steps[of short 1 3]
    by (simp add: short_def new_MLService_def)
  have 3: "predictFuture warm 2 3 = Inr None"
    using predictFuture_null_or_steps[of warm 2 3]
    by (simp add: warm_def new_MLService_def)
  have 4: "\<exists>forecast. predictFuture warm 1 3 = Inr (Some forecast) \<and> length forecast = 3"
    using predictFuture_null_or_steps[of warm 1 3]
    by (simp add: warm_def new_MLService_def l_def)
  show ?thesis
    using 1 2 3 4 unfolding Let_def e_def l_def cold_def short_def warm_def by blast
qed

end
